theory Spec2Isabelle
  imports Main "HOL-Library.AList" "HOL-Library.Sublist"
begin

section \<open>Python values and dictionaries\<close>

text \<open>
  The engine handles Stripe objects as Python dictionaries (\<^verbatim>\<open>Dict[str, Any]\<close>).
  A value is a JSON value; a dictionary is an association list from keys to values.
  Amounts and counters of the payloads are integers.
\<close>

datatype jv =
    JNone
  | JBool bool
  | JInt int
  | JStr string
  | JList "jv list"
  | JDict "(string \<times> jv) list"

type_synonym entity = "(string \<times> jv) list"

text \<open>Every \<^verbatim>\<open>raise\<close> of the engine and of its collaborators is a value.\<close>

datatype error =
    InvalidRequestError "string option"
  | StripeError string
  | KeyError string
  | AttributeError string
  | ValueError string
  | TypeError string
  | StoreError string
  | Exception string

text \<open>\<^verbatim>\<open>d.get(key)\<close>: \<^verbatim>\<open>None\<close> when the key is absent.\<close>

definition dict_get :: "entity \<Rightarrow> string \<Rightarrow> jv" where
  "dict_get d k = (case map_of d k of None \<Rightarrow> JNone | Some v \<Rightarrow> v)"

text \<open>\<^verbatim>\<open>d[key]\<close>: raises \<^verbatim>\<open>KeyError\<close> when the key is absent.\<close>

definition dict_item :: "entity \<Rightarrow> string \<Rightarrow> error + jv" where
  "dict_item d k = (case map_of d k of None \<Rightarrow> Inl (KeyError k) | Some v \<Rightarrow> Inr v)"

text \<open>Python truthiness, as \<^verbatim>\<open>if value:\<close> tests it.\<close>

fun truthy :: "jv \<Rightarrow> bool" where
  "truthy JNone = False"
| "truthy (JBool b) = b"
| "truthy (JInt i) = (i \<noteq> 0)"
| "truthy (JStr s) = (s \<noteq> [])"
| "truthy (JList xs) = (xs \<noteq> [])"
| "truthy (JDict kv) = (kv \<noteq> [])"

section \<open>Computations: state and exceptions\<close>

text \<open>
  A method of the engine changes the world (the database, the calls made to the source
  API) and either returns or raises. What was written before an exception stays written:
  the engine opens no transaction around a call.
\<close>

type_synonym ('w, 'a) M = "'w \<Rightarrow> (error + 'a) \<times> 'w"

definition ok :: "'a \<Rightarrow> ('w, 'a) M" where
  "ok x w = (Inr x, w)"

definition raise :: "error \<Rightarrow> ('w, 'a) M" where
  "raise e w = (Inl e, w)"

definition bnd :: "('w, 'a) M \<Rightarrow> ('a \<Rightarrow> ('w, 'b) M) \<Rightarrow> ('w, 'b) M" where
  "bnd m f w = (case m w of (Inl e, w') \<Rightarrow> (Inl e, w') | (Inr x, w') \<Rightarrow> f x w')"

definition lift :: "error + 'a \<Rightarrow> ('w, 'a) M" where
  "lift r w = (r, w)"

section \<open>Module-level helpers\<close>

text \<open>
  \<^verbatim>\<open>chunk_array(array, chunk_size)\<close>: the slices \<^verbatim>\<open>array[i:i + chunk_size]\<close> for
  \<^verbatim>\<open>i in range(0, len(array), chunk_size)\<close>. A step of zero makes \<^verbatim>\<open>range\<close> raise.
\<close>

function chunks :: "'a list \<Rightarrow> nat \<Rightarrow> 'a list list" where
  "chunks xs n = (if xs = [] \<or> n = 0 then [] else take n xs # chunks (drop n xs) n)"
  by pat_completeness auto
termination
  by (relation "measure (\<lambda>(xs, n). length xs)") auto

declare chunks.simps [simp del]

definition chunk_array :: "'a list \<Rightarrow> nat \<Rightarrow> error + 'a list list" where
  "chunk_array array chunk_size =
     (if chunk_size = 0 then Inl (ValueError ''range() arg 3 must not be zero'')
      else Inr (chunks array chunk_size))"

section \<open>Backfill orchestrator: fetch and upsert in batches\<close>

record Sync =
  synced :: nat

text \<open>
  \<^verbatim>\<open>stripe_list.auto_paging_iter()\<close> yields the records of a listing page after page:
  a finite run of records, after which the iteration ends or a request for the next page
  raises.
\<close>

type_synonym paging = "entity list \<times> error option"

definition chunk_size :: nat where
  "chunk_size = 250"

text \<open>
  The loop of \<^verbatim>\<open>_fetch_and_upsert\<close> over the records still to come, with the
  local variables \<^verbatim>\<open>chunk\<close> and \<^verbatim>\<open>synced\<close>.
\<close>

fun fetch_loop ::
  "(entity list \<Rightarrow> ('w, 'a) M) \<Rightarrow> entity list \<Rightarrow> entity list \<Rightarrow> nat \<Rightarrow> ('w, entity list \<times> nat) M"
where
  "fetch_loop upsert [] chunk n w = (Inr (chunk, n), w)"
| "fetch_loop upsert (item # rest) chunk n w =
     (let chunk1 = chunk @ [item]; n1 = n + 1 in
      if length chunk1 \<ge> chunk_size then
        (case upsert chunk1 w of
           (Inl e, w1) \<Rightarrow> (Inl e, w1)
         | (Inr _, w1) \<Rightarrow> fetch_loop upsert rest [] n1 w1)
      else fetch_loop upsert rest chunk1 n1 w)"

definition fetch_and_upsert ::
  "('w, paging) M \<Rightarrow> (entity list \<Rightarrow> ('w, 'a) M) \<Rightarrow> ('w, Sync) M"
where
  "fetch_and_upsert fetch upsert =
     bnd fetch (\<lambda>(items, failure).
     bnd (fetch_loop upsert items [] 0) (\<lambda>(chunk, n).
       case failure of
         Some e \<Rightarrow> raise e
       | None \<Rightarrow>
           bnd (if length chunk > 0 then bnd (upsert chunk) (\<lambda>_. ok ()) else ok ()) (\<lambda>_.
           ok \<lparr>synced = n\<rparr>)))"

text \<open>
  Two instruments for stating what a backfill run does: a listing that yields the given
  records and ends, and an upsert callback that only records the batch it is handed.
\<close>

definition fetch_ok :: "entity list \<Rightarrow> ('w, paging) M" where
  "fetch_ok items = ok (items, None)"

definition record_batch :: "entity list \<Rightarrow> (entity list list, unit) M" where
  "record_batch chunk calls = (Inr (), calls @ [chunk])"

section \<open>The world: database tables and calls to the source API\<close>

text \<open>
  A sync timestamp is an instant; the strings that \<^verbatim>\<open>isoformat()\<close> renders are
  compared by the database as the instants they denote.
\<close>

type_synonym timestamp = int

text \<open>
  A stored row: the columns of the entity's schema and the internal sync-timestamp
  column. A table maps the primary key (the external id) to its row; the database maps a
  table name to its table.
\<close>

record row =
  cols :: entity
  last_synced_at :: "timestamp option"

type_synonym table = "(string \<times> row) list"

datatype resource =
    Charge | CheckoutSession | Customer | Subscription | TaxId | Invoice | Product
  | Price | Plan | SetupIntent | SubscriptionSchedule | PaymentMethod | Dispute
  | PaymentIntent | CreditNote | EarlyFraudWarning | Refund | Review | InvoicePayment
  | Feature | ActiveEntitlement

text \<open>
  The listings the engine asks the source API for: the listing of a sub-collection, with
  the id of its owner, and the listing \<^verbatim>\<open>X.list(**params)\<close> of a resource, with its
  keyword arguments.
\<close>

datatype listing =
    RefundList jv
  | CreditNoteLineItems jv
  | InvoiceLineItems jv
  | SubscriptionItemList jv
  | CheckoutSessionLineItems jv
  | ActiveEntitlementList jv
  | ResourceList resource entity

datatype api_call = Retrieve resource jv | Listing listing

text \<open>
  The world: the tables of the database, and two traces that record what the engine did:
  the calls made to the source API, and for every call of the store's upsert the table
  and the number of records it was handed.
\<close>

record world =
  tables :: "(string \<times> table) list"
  api_calls :: "api_call list"
  upsert_calls :: "(string \<times> nat) list"

definition table_of :: "world \<Rightarrow> string \<Rightarrow> table" where
  "table_of w t = (case map_of (tables w) t of None \<Rightarrow> [] | Some tb \<Rightarrow> tb)"

definition set_table :: "string \<Rightarrow> table \<Rightarrow> world \<Rightarrow> world" where
  "set_table t tb w = w\<lparr>tables := AList.update t tb (tables w)\<rparr>"

section \<open>The relational upsert store\<close>

text \<open>
  The class \<^verbatim>\<open>PostgresClient\<close> (\<^verbatim>\<open>database/postgres.py\<close>) is not among the sources;
  its operations are modelled from section 4.2 of the specification.
\<close>

text \<open>
  Modelled from the spec: the projection of section 4.1, missing with
  \<^verbatim>\<open>PostgresClient\<close>: a row holds exactly the schema's fields in order, with null for
  a field absent from the record.
\<close>

definition project :: "string list \<Rightarrow> entity \<Rightarrow> entity" where
  "project schema e = map (\<lambda>c. (c, dict_get e c)) schema"

definition primary_key :: "entity \<Rightarrow> string option" where
  "primary_key e = (case dict_get e ''id'' of JStr k \<Rightarrow> Some k | _ \<Rightarrow> None)"

text \<open>
  Modelled from the spec: the guard of \<^verbatim>\<open>upsert_many\<close>, missing with
  \<^verbatim>\<open>PostgresClient\<close>: when a sync timestamp is supplied, a write is applied only if
  the stored row has no strictly newer timestamp. The comparison is per row.
\<close>

definition newer_stored :: "timestamp option \<Rightarrow> row \<Rightarrow> bool" where
  "newer_stored ts r =
     (case ts of
        None \<Rightarrow> False
      | Some t2 \<Rightarrow> (case last_synced_at r of None \<Rightarrow> False | Some t1 \<Rightarrow> t2 < t1))"

definition accepts :: "timestamp option \<Rightarrow> table \<Rightarrow> string \<Rightarrow> bool" where
  "accepts ts tb k = (case map_of tb k of None \<Rightarrow> True | Some r \<Rightarrow> \<not> newer_stored ts r)"

text \<open>
  Modelled from the spec: the insert-or-update of one record, missing with
  \<^verbatim>\<open>PostgresClient\<close>: a new row holds the projection; an update sets the schema's
  columns on the stored row. The supplied timestamp is stored with the row.
\<close>

definition write_row :: "string list \<Rightarrow> timestamp option \<Rightarrow> string \<Rightarrow> entity \<Rightarrow> table \<Rightarrow> table" where
  "write_row schema ts k e tb =
     AList.update k
       (case map_of tb k of
          None \<Rightarrow> \<lparr>cols = project schema e, last_synced_at = ts\<rparr>
        | Some r \<Rightarrow>
            \<lparr>cols = fold (\<lambda>(c, v). AList.update c v) (project schema e) (cols r),
             last_synced_at = (case ts of None \<Rightarrow> last_synced_at r | Some t \<Rightarrow> Some t)\<rparr>)
       tb"

text \<open>
  Modelled from the spec: the batch, missing with \<^verbatim>\<open>PostgresClient\<close>: the records are
  written in order, each one compared with the row stored for its own key, and the
  affected rows are counted.
\<close>

fun upsert_rows ::
  "string list \<Rightarrow> timestamp option \<Rightarrow> (string \<times> entity) list \<Rightarrow> table \<Rightarrow> table \<times> nat"
where
  "upsert_rows schema ts [] tb = (tb, 0)"
| "upsert_rows schema ts ((k, e) # rest) tb =
     (if accepts ts tb k then
        (case upsert_rows schema ts rest (write_row schema ts k e tb) of
           (tb1, n) \<Rightarrow> (tb1, Suc n))
      else upsert_rows schema ts rest tb)"

text \<open>
  Modelled from the spec: \<^verbatim>\<open>upsert_many(records, kind, schema, sync_timestamp?)\<close>,
  missing with \<^verbatim>\<open>PostgresClient\<close>: an idempotent bulk insert-or-update keyed by the
  primary key, which returns the count of affected rows and never deletes; a malformed
  record (here: one without a string id) fails the whole batch with no partial write.
\<close>

definition upsert_many_with_timestamp_protection ::
  "entity list \<Rightarrow> string \<Rightarrow> string list \<Rightarrow> timestamp option \<Rightarrow> (world, nat) M"
where
  "upsert_many_with_timestamp_protection entries table_name schema sync_timestamp w =
     (if list_ex (\<lambda>e. primary_key e = None) entries then
        (Inl (StoreError ''malformed record''),
         w\<lparr>upsert_calls := upsert_calls w @ [(table_name, length entries)]\<rparr>)
      else
        (case upsert_rows schema sync_timestamp (map (\<lambda>e. (the (primary_key e), e)) entries)
                (table_of w table_name) of
           (tb, n) \<Rightarrow>
             (Inr n,
              set_table table_name tb
                (w\<lparr>upsert_calls := upsert_calls w @ [(table_name, length entries)]\<rparr>))))"

text \<open>A row is soft-deleted when its \<^verbatim>\<open>deleted\<close> column is true.\<close>

definition soft_deleted :: "row \<Rightarrow> bool" where
  "soft_deleted r = (dict_get (cols r) ''deleted'' = JBool True)"

text \<open>
  Modelled from the spec: \<^verbatim>\<open>delete(kind, id) -> bool\<close>, missing with
  \<^verbatim>\<open>PostgresClient\<close>: a hard delete by primary key, which returns whether a row was
  removed.
\<close>

definition delete :: "string \<Rightarrow> jv \<Rightarrow> (world, bool) M" where
  "delete table_name i w =
     (case i of
        JStr k \<Rightarrow>
          (Inr (map_of (table_of w table_name) k \<noteq> None),
           set_table table_name (AList.delete k (table_of w table_name)) w)
      | _ \<Rightarrow> (Inr False, w))"

text \<open>
  Modelled from the spec: \<^verbatim>\<open>find_missing_entries(kind, candidate_ids)\<close>, missing with
  \<^verbatim>\<open>PostgresClient\<close>: the candidate ids that are not ids currently stored for the
  kind, soft-deleted rows being ignored.
\<close>

definition find_missing_entries :: "string \<Rightarrow> string list \<Rightarrow> (world, string list) M" where
  "find_missing_entries table_name ids w =
     (Inr (filter (\<lambda>i. case map_of (table_of w table_name) i of
                          None \<Rightarrow> True
                        | Some r \<Rightarrow> soft_deleted r) ids), w)"

text \<open>
  The SQL statements that the engine passes to \<^verbatim>\<open>postgres_client.query\<close>, each with
  its parameters. Their text is in the source; their execution follows SQL: a comparison
  with a null is not true, and an id is a text.
\<close>

datatype statement =
    SelectCustomers
  | SelectSubscriptionItems jv
  | UpdateSubscriptionItemsDeleted "jv list"
  | DeleteActiveEntitlements jv "jv list"

record query_result =
  result_rows :: "entity list"
  rowCount :: nat

definition sql_eq :: "jv \<Rightarrow> jv \<Rightarrow> bool" where
  "sql_eq a b = (case a of JStr x \<Rightarrow> (case b of JStr y \<Rightarrow> x = y | _ \<Rightarrow> False) | _ \<Rightarrow> False)"

text \<open>
  \<^verbatim>\<open>SELECT id FROM subscription_items WHERE subscription = %s AND deleted = false\<close>
\<close>

definition select_subscription_items :: "jv \<Rightarrow> table \<Rightarrow> string list" where
  "select_subscription_items sub tb =
     map fst (filter (\<lambda>(k, r). sql_eq (dict_get (cols r) ''subscription'') sub \<and>
                               dict_get (cols r) ''deleted'' = JBool False) tb)"

text \<open>
  \<^verbatim>\<open>UPDATE subscription_items SET deleted = true WHERE id = ANY(%s::text[])\<close>
\<close>

definition update_deleted :: "jv list \<Rightarrow> table \<Rightarrow> table" where
  "update_deleted ids tb =
     map (\<lambda>(k, r). if JStr k \<in> set ids
                     then (k, r\<lparr>cols := AList.update ''deleted'' (JBool True) (cols r)\<rparr>)
                     else (k, r)) tb"

text \<open>
  \<^verbatim>\<open>DELETE FROM active_entitlements WHERE customer = %s AND id <> ALL(%s::text[])\<close>
\<close>

definition differs_from_all :: "string \<Rightarrow> jv list \<Rightarrow> bool" where
  "differs_from_all k ids = list_all (\<lambda>x. case x of JStr y \<Rightarrow> y \<noteq> k | _ \<Rightarrow> False) ids"

definition removed_entitlement :: "jv \<Rightarrow> jv list \<Rightarrow> string \<times> row \<Rightarrow> bool" where
  "removed_entitlement customer ids kr =
     (sql_eq (dict_get (cols (snd kr)) ''customer'') customer \<and> differs_from_all (fst kr) ids)"

text \<open>
  \<^verbatim>\<open>SELECT id FROM customers WHERE deleted <> true\<close>; the \<^verbatim>\<open>deleted\<close> column of a
  soft-deletable kind is a boolean that is false unless a write has set it.
\<close>

definition select_customers :: "table \<Rightarrow> string list" where
  "select_customers tb = map fst (filter (\<lambda>kr. \<not> soft_deleted (snd kr)) tb)"

definition query :: "statement \<Rightarrow> (world, query_result) M" where
  "query st w =
     (case st of
        SelectCustomers \<Rightarrow>
          (let ks = select_customers (table_of w ''customers'')
           in (Inr \<lparr>result_rows = map (\<lambda>k. [(''id'', JStr k)]) ks, rowCount = length ks\<rparr>, w))
      | SelectSubscriptionItems sub \<Rightarrow>
          (let ks = select_subscription_items sub (table_of w ''subscription_items'')
           in (Inr \<lparr>result_rows = map (\<lambda>k. [(''id'', JStr k)]) ks, rowCount = length ks\<rparr>, w))
      | UpdateSubscriptionItemsDeleted ids \<Rightarrow>
          (let tb = table_of w ''subscription_items''
           in (Inr \<lparr>result_rows = [], rowCount = length (filter (\<lambda>(k, r). JStr k \<in> set ids) tb)\<rparr>,
               set_table ''subscription_items'' (update_deleted ids tb) w))
      | DeleteActiveEntitlements customer ids \<Rightarrow>
          (let tb = table_of w ''active_entitlements''
           in (Inr \<lparr>result_rows = [],
                    rowCount = length (filter (removed_entitlement customer ids) tb)\<rparr>,
               set_table ''active_entitlements''
                 (filter (\<lambda>kr. \<not> removed_entitlement customer ids kr) tb) w)))"

section \<open>Entity schemas\<close>

definition customer_schema :: "string list" where
  "customer_schema =
     [''id'', ''object'', ''address'', ''description'', ''email'', ''metadata'', ''name'',
      ''phone'', ''shipping'', ''balance'', ''created'', ''currency'', ''default_source'',
      ''delinquent'', ''discount'', ''invoice_prefix'', ''invoice_settings'', ''livemode'',
      ''next_invoice_sequence'', ''preferred_locales'', ''tax_exempt'']"

definition customer_deleted_schema :: "string list" where
  "customer_deleted_schema = [''id'', ''object'', ''deleted'']"

definition product_schema :: "string list" where
  "product_schema =
     [''id'', ''object'', ''active'', ''default_price'', ''description'', ''metadata'',
      ''name'', ''created'', ''images'', ''marketing_features'', ''livemode'',
      ''package_dimensions'', ''shippable'', ''statement_descriptor'', ''unit_label'',
      ''updated'', ''url'']"

definition plan_schema :: "string list" where
  "plan_schema =
     [''id'', ''object'', ''active'', ''amount'', ''created'', ''product'', ''currency'',
      ''interval'', ''livemode'', ''metadata'', ''nickname'', ''tiers_mode'', ''usage_type'',
      ''billing_scheme'', ''interval_count'', ''aggregate_usage'', ''transform_usage'',
      ''trial_period_days'']"

definition subscription_item_schema :: "string list" where
  "subscription_item_schema =
     [''id'', ''object'', ''billing_thresholds'', ''created'', ''deleted'', ''metadata'',
      ''quantity'', ''price'', ''subscription'', ''tax_rates'', ''current_period_end'',
      ''current_period_start'']"

definition active_entitlement_schema :: "string list" where
  "active_entitlement_schema =
     [''id'', ''object'', ''feature'', ''lookup_key'', ''livemode'', ''customer'']"

definition refund_schema :: "string list" where
  "refund_schema =
     [''id'', ''object'', ''amount'', ''balance_transaction'', ''charge'', ''created'',
      ''currency'', ''destination_details'', ''metadata'', ''payment_intent'', ''reason'',
      ''receipt_number'', ''source_transfer_reversal'', ''status'', ''transfer_reversal'']"

definition early_fraud_warning_schema :: "string list" where
  "early_fraud_warning_schema =
     [''id'', ''object'', ''actionable'', ''charge'', ''created'', ''fraud_type'',
      ''livemode'', ''payment_intent'']"

definition payment_methods_schema :: "string list" where
  "payment_methods_schema =
     [''id'', ''object'', ''created'', ''customer'', ''type'', ''billing_details'',
      ''metadata'', ''card'']"

definition checkout_session_line_item_schema :: "string list" where
  "checkout_session_line_item_schema =
     [''id'', ''object'', ''amount_discount'', ''amount_subtotal'', ''amount_tax'',
      ''amount_total'', ''currency'', ''description'', ''price'', ''quantity'',
      ''checkout_session'']"

definition credit_note_schema :: "string list" where
  "credit_note_schema =
     [''id'', ''object'', ''amount'', ''amount_shipping'', ''created'', ''currency'',
      ''customer'', ''customer_balance_transaction'', ''discount_amount'',
      ''discount_amounts'', ''invoice'', ''lines'', ''livemode'', ''memo'', ''metadata'',
      ''number'', ''out_of_band_amount'', ''pdf'', ''reason'', ''refund'', ''shipping_cost'',
      ''status'', ''subtotal'', ''subtotal_excluding_tax'', ''tax_amounts'', ''total'',
      ''total_excluding_tax'', ''type'', ''voided_at'']"

definition invoice_payment_schema :: "string list" where
  "invoice_payment_schema =
     [''id'', ''object'', ''amount_paid'', ''amount_requested'', ''created'', ''currency'',
      ''invoice'', ''is_default'', ''livemode'', ''payment'', ''status'',
      ''status_transitions'']"

definition review_schema :: "string list" where
  "review_schema =
     [''id'', ''object'', ''billing_zip'', ''created'', ''charge'', ''closed_reason'',
      ''livemode'', ''ip_address'', ''ip_address_location'', ''open'', ''opened_reason'',
      ''payment_intent'', ''reason'', ''session'']"

definition setup_intents_schema :: "string list" where
  "setup_intents_schema =
     [''id'', ''object'', ''created'', ''customer'', ''description'', ''payment_method'',
      ''status'', ''usage'', ''cancellation_reason'', ''latest_attempt'', ''mandate'',
      ''single_use_mandate'', ''on_behalf_of'']"

definition subscription_schedule_schema :: "string list" where
  "subscription_schedule_schema =
     [''id'', ''object'', ''application'', ''canceled_at'', ''completed_at'', ''created'',
      ''current_phase'', ''customer'', ''default_settings'', ''end_behavior'', ''livemode'',
      ''metadata'', ''phases'', ''released_at'', ''released_subscription'', ''status'',
      ''subscription'', ''test_clock'', ''billing_mode'']"

definition tax_id_schema :: "string list" where
  "tax_id_schema =
     [''id'', ''country'', ''customer'', ''type'', ''value'', ''object'', ''created'',
      ''livemode'', ''owner'']"

section \<open>The engine and its collaborators\<close>

text \<open>
  \<^verbatim>\<open>StripeSyncConfig\<close>, with the fields the engine reads after its construction. The
  logger is an object the engine only calls, so the record holds whether one is set.
\<close>

record config =
  auto_expand_lists :: "bool option"
  backfill_related_entities :: "bool option"
  revalidate_objects_via_stripe_api :: "string list option"
  logger :: bool

text \<open>
  The source API: \<^verbatim>\<open>X.retrieve(id)\<close> returns the object or raises; a listing drained
  with \<^verbatim>\<open>auto_paging_iter()\<close> yields its records; a listing read as returned is its
  first page, a list object with the records under \<^verbatim>\<open>data\<close>.
\<close>

record stripe_api =
  retrieve :: "resource \<Rightarrow> jv \<Rightarrow> error + entity"
  auto_paging_iter :: "listing \<Rightarrow> paging"
  first_page :: "listing \<Rightarrow> error + entity"

text \<open>
  An engine instance with what surrounds it: its configuration, the source API, the two
  clock readings (\<^verbatim>\<open>datetime.utcnow()\<close> and \<^verbatim>\<open>datetime.fromtimestamp(seconds)\<close>,
  as instants), what \<^verbatim>\<open>str()\<close> renders for a value that is not a string (it depends
  on the class of the value), and the schemas whose modules are not among the sources.
\<close>

record engine =
  config :: config
  stripe :: stripe_api
  utcnow :: timestamp
  fromtimestamp :: "int \<Rightarrow> error + timestamp"
  render :: "jv \<Rightarrow> string"
  charge_schema :: "string list"
  checkout_session_schema :: "string list"
  dispute_schema :: "string list"
  feature_schema :: "string list"
  invoice_schema :: "string list"
  payment_intent_schema :: "string list"
  price_schema :: "string list"
  subscription_schema :: "string list"

text \<open>\<^verbatim>\<open>stripe.Event\<close>: the envelope of a webhook.\<close>

record event =
  event_id :: string
  event_type :: string
  created :: int
  data_object :: entity

definition py_str :: "(jv \<Rightarrow> string) \<Rightarrow> jv \<Rightarrow> string" where
  "py_str rep v = (case v of JStr s \<Rightarrow> s | _ \<Rightarrow> rep v)"

text \<open>
  \<^verbatim>\<open>get_unique_ids(entries, key)\<close>: the truthy values under the key, as strings, each
  once. The order in which a Python set is listed is not specified; the model lists the
  ids in the order of their first occurrence.
\<close>

definition get_unique_ids :: "(jv \<Rightarrow> string) \<Rightarrow> entity list \<Rightarrow> string \<Rightarrow> string list" where
  "get_unique_ids rep entries key =
     remdups (map (py_str rep) (filter truthy (map (\<lambda>entry. dict_get entry key) entries)))"

text \<open>Sequencing over a list: a \<^verbatim>\<open>for\<close> loop, and a loop that collects results.\<close>

fun for_each :: "('a \<Rightarrow> ('w, 'b) M) \<Rightarrow> 'a list \<Rightarrow> ('w, unit) M" where
  "for_each f [] = ok ()"
| "for_each f (x # xs) = bnd (f x) (\<lambda>_. for_each f xs)"

fun map_m :: "('a \<Rightarrow> ('w, 'b) M) \<Rightarrow> 'a list \<Rightarrow> ('w, 'b list) M" where
  "map_m f [] = ok []"
| "map_m f (x # xs) = bnd (f x) (\<lambda>y. bnd (map_m f xs) (\<lambda>ys. ok (y # ys)))"

text \<open>Calls to the source API leave a trace in the world.\<close>

definition stripe_retrieve :: "engine \<Rightarrow> resource \<Rightarrow> jv \<Rightarrow> (world, entity) M" where
  "stripe_retrieve self r i w =
     (retrieve (stripe self) r i, w\<lparr>api_calls := api_calls w @ [Retrieve r i]\<rparr>)"

definition stripe_list :: "engine \<Rightarrow> listing \<Rightarrow> (world, paging) M" where
  "stripe_list self q w =
     (Inr (auto_paging_iter (stripe self) q), w\<lparr>api_calls := api_calls w @ [Listing q]\<rparr>)"

text \<open>
  \<^verbatim>\<open>for item in stripe_list.auto_paging_iter(): items.append(item)\<close>: the records of
  the listing, unless the iteration raises.
\<close>

definition stripe_list_drained :: "engine \<Rightarrow> listing \<Rightarrow> (world, entity list) M" where
  "stripe_list_drained self q =
     bnd (stripe_list self q) (\<lambda>(items, failure).
       case failure of Some e \<Rightarrow> raise e | None \<Rightarrow> ok items)"

definition stripe_list_page :: "engine \<Rightarrow> listing \<Rightarrow> (world, entity) M" where
  "stripe_list_page self q w =
     (first_page (stripe self) q, w\<lparr>api_calls := api_calls w @ [Listing q]\<rparr>)"

text \<open>
  \<^verbatim>\<open>for x in v\<close>: a list yields its elements, a string its characters, a dictionary
  its keys; any other value cannot be iterated.
\<close>

definition iterate :: "jv \<Rightarrow> error + jv list" where
  "iterate v =
     (case v of
        JList xs \<Rightarrow> Inr xs
      | JStr s \<Rightarrow> Inr (map (\<lambda>c. JStr [c]) s)
      | JDict d \<Rightarrow> Inr (map (\<lambda>kv. JStr (fst kv)) d)
      | _ \<Rightarrow> Inl (TypeError ''not iterable''))"

text \<open>The dictionary that a value is, for a value known to be one.\<close>

definition dict_of :: "jv \<Rightarrow> entity" where
  "dict_of v = (case v of JDict d \<Rightarrow> d | _ \<Rightarrow> [])"

text \<open>\<^verbatim>\<open>v[key]\<close> on a value: a dictionary is subscripted by its keys.\<close>

definition jv_item :: "jv \<Rightarrow> string \<Rightarrow> error + jv" where
  "jv_item v k = (case v of JDict d \<Rightarrow> dict_item d k | _ \<Rightarrow> Inl (TypeError ''not subscriptable''))"

text \<open>\<^verbatim>\<open>d.get(key, default)\<close>\<close>

definition dict_get_default :: "entity \<Rightarrow> string \<Rightarrow> jv \<Rightarrow> jv" where
  "dict_get_default d k dflt = (case map_of d k of None \<Rightarrow> dflt | Some v \<Rightarrow> v)"

text \<open>
  \<^verbatim>\<open>backfill_related_entities if backfill_related_entities is not None else
  self.config.backfill_related_entities\<close>, as a condition.
\<close>

definition backfill_enabled :: "engine \<Rightarrow> bool option \<Rightarrow> bool" where
  "backfill_enabled self backfill_related =
     (case backfill_related of
        Some b \<Rightarrow> b
      | None \<Rightarrow> backfill_related_entities (config self) = Some True)"

section \<open>List expander and referential backfiller\<close>

definition expand_entity ::
  "engine \<Rightarrow> entity list \<Rightarrow> string \<Rightarrow> (jv \<Rightarrow> listing) \<Rightarrow> (world, entity list) M"
where
  "expand_entity self entities property list_fn =
     (if auto_expand_lists (config self) \<noteq> Some True then ok entities
      else
        map_m (\<lambda>entity.
          case dict_get entity property of
            JDict prop_value \<Rightarrow>
              if truthy (dict_get prop_value ''has_more'') then
                bnd (lift (dict_item entity ''id'')) (\<lambda>i.
                bnd (stripe_list_drained self (list_fn i)) (\<lambda>all_data.
                ok (AList.update property
                      (JDict (AList.update ''has_more'' (JBool False)
                                (AList.update ''data'' (JList (map JDict all_data)) prop_value)))
                      entity)))
              else ok entity
          | _ \<Rightarrow> ok entity) entities)"

definition fetch_missing_entities :: "engine \<Rightarrow> string list \<Rightarrow> resource \<Rightarrow> (world, entity list) M" where
  "fetch_missing_entities self ids r =
     (if ids = [] then ok []
      else map_m (\<lambda>i. stripe_retrieve self r (JStr i)) ids)"

section \<open>Upserts of the entity kinds\<close>

definition upsert_customers :: "engine \<Rightarrow> entity list \<Rightarrow> timestamp option \<Rightarrow> (world, entity list) M" where
  "upsert_customers self customers sync_timestamp =
     (let deleted_customers = filter (\<lambda>c. truthy (dict_get c ''deleted'')) customers;
          non_deleted_customers = filter (\<lambda>c. \<not> truthy (dict_get c ''deleted'')) customers
      in
        bnd (upsert_many_with_timestamp_protection non_deleted_customers ''customers''
               customer_schema sync_timestamp) (\<lambda>_.
        bnd (upsert_many_with_timestamp_protection deleted_customers ''customers''
               customer_deleted_schema sync_timestamp) (\<lambda>_.
        ok customers)))"

definition backfill_customers :: "engine \<Rightarrow> string list \<Rightarrow> (world, unit) M" where
  "backfill_customers self customer_ids =
     bnd (find_missing_entries ''customers'' customer_ids) (\<lambda>missing_ids.
     bnd (fetch_missing_entities self missing_ids Customer) (\<lambda>customers.
     bnd (upsert_customers self customers None) (\<lambda>_. ok ())))"

definition upsert_products :: "engine \<Rightarrow> entity list \<Rightarrow> timestamp option \<Rightarrow> (world, nat) M" where
  "upsert_products self products sync_timestamp =
     upsert_many_with_timestamp_protection products ''products'' product_schema sync_timestamp"

definition delete_product :: "engine \<Rightarrow> jv \<Rightarrow> (world, bool) M" where
  "delete_product self i = delete ''products'' i"

definition backfill_products :: "engine \<Rightarrow> string list \<Rightarrow> (world, unit) M" where
  "backfill_products self product_ids =
     bnd (find_missing_entries ''products'' product_ids) (\<lambda>missing_ids.
     bnd (fetch_missing_entities self missing_ids Product) (\<lambda>products.
     bnd (upsert_products self products None) (\<lambda>_. ok ())))"

definition upsert_features :: "engine \<Rightarrow> entity list \<Rightarrow> timestamp option \<Rightarrow> (world, nat) M" where
  "upsert_features self features sync_timestamp =
     upsert_many_with_timestamp_protection features ''features'' (feature_schema self)
       sync_timestamp"

definition backfill_features :: "engine \<Rightarrow> string list \<Rightarrow> (world, unit) M" where
  "backfill_features self feature_ids =
     bnd (find_missing_entries ''features'' feature_ids) (\<lambda>missing_ids.
     bnd (fetch_missing_entities self missing_ids Feature) (\<lambda>features.
     bnd (upsert_features self features None) (\<lambda>_. ok ())))"

definition upsert_prices ::
  "engine \<Rightarrow> entity list \<Rightarrow> bool option \<Rightarrow> timestamp option \<Rightarrow> (world, nat) M"
where
  "upsert_prices self prices backfill_related sync_timestamp =
     bnd (if backfill_enabled self backfill_related
          then backfill_products self (get_unique_ids (render self) prices ''product'')
          else ok ()) (\<lambda>_.
     upsert_many_with_timestamp_protection prices ''prices'' (price_schema self) sync_timestamp)"

definition delete_price :: "engine \<Rightarrow> jv \<Rightarrow> (world, bool) M" where
  "delete_price self i = delete ''prices'' i"

definition backfill_prices :: "engine \<Rightarrow> string list \<Rightarrow> (world, unit) M" where
  "backfill_prices self price_ids =
     bnd (find_missing_entries ''prices'' price_ids) (\<lambda>missing_ids.
     bnd (fetch_missing_entities self missing_ids Price) (\<lambda>prices.
     bnd (upsert_prices self prices None None) (\<lambda>_. ok ())))"

definition upsert_plans ::
  "engine \<Rightarrow> entity list \<Rightarrow> bool option \<Rightarrow> timestamp option \<Rightarrow> (world, nat) M"
where
  "upsert_plans self plans backfill_related sync_timestamp =
     bnd (if backfill_enabled self backfill_related
          then backfill_products self (get_unique_ids (render self) plans ''product'')
          else ok ()) (\<lambda>_.
     upsert_many_with_timestamp_protection plans ''plans'' plan_schema sync_timestamp)"

definition delete_plan :: "engine \<Rightarrow> jv \<Rightarrow> (world, bool) M" where
  "delete_plan self i = delete ''plans'' i"

text \<open>
  One turn of the loop of \<^verbatim>\<open>_upsert_subscription_items\<close>; \<^verbatim>\<open>item.get\<close> raises
  for an item that is not a dictionary.
\<close>

definition modified_subscription_item :: "(jv \<Rightarrow> string) \<Rightarrow> jv \<Rightarrow> error + entity" where
  "modified_subscription_item rep v =
     (case v of
        JDict item \<Rightarrow>
          (case (case dict_get item ''price'' of
                   JDict price \<Rightarrow> dict_item price ''id''
                 | other \<Rightarrow> Inr other) of
             Inl e \<Rightarrow> Inl e
           | Inr price_id \<Rightarrow>
               Inr (AList.update ''quantity'' (dict_get item ''quantity'')
                     (AList.update ''deleted'' (dict_get_default item ''deleted'' (JBool False))
                       (AList.update ''price'' (JStr (py_str rep price_id)) item))))
      | _ \<Rightarrow> Inl (AttributeError ''get''))"

definition upsert_subscription_items ::
  "engine \<Rightarrow> jv list \<Rightarrow> timestamp option \<Rightarrow> (world, unit) M"
where
  "upsert_subscription_items self subscription_items sync_timestamp =
     bnd (map_m (\<lambda>item. lift (modified_subscription_item (render self) item))
            subscription_items) (\<lambda>modified_items.
     bnd (upsert_many_with_timestamp_protection modified_items ''subscription_items''
            subscription_item_schema sync_timestamp) (\<lambda>_.
     ok ()))"

definition mark_deleted_subscription_items :: "engine \<Rightarrow> jv \<Rightarrow> jv list \<Rightarrow> (world, nat) M" where
  "mark_deleted_subscription_items self subscription_id current_sub_item_ids =
     bnd (query (SelectSubscriptionItems subscription_id)) (\<lambda>result.
       let deleted_ids =
             filter (\<lambda>i. i \<notin> set current_sub_item_ids)
               (map (\<lambda>r. dict_get r ''id'') (result_rows result))
       in if length deleted_ids > 0 then
            bnd (query (UpdateSubscriptionItemsDeleted deleted_ids)) (\<lambda>result1.
            ok (rowCount result1))
          else ok 0)"

text \<open>
  \<^verbatim>\<open>items_data = subscription.get('items', {})\<close>, and the list under \<^verbatim>\<open>data\<close> when
  \<^verbatim>\<open>isinstance(items_data, dict) and 'data' in items_data\<close>.
\<close>

definition items_data :: "entity \<Rightarrow> jv option" where
  "items_data subscription =
     (case dict_get_default subscription ''items'' (JDict []) of
        JDict d \<Rightarrow> map_of d ''data''
      | _ \<Rightarrow> None)"

definition upsert_subscriptions ::
  "engine \<Rightarrow> entity list \<Rightarrow> bool option \<Rightarrow> timestamp option \<Rightarrow> (world, nat) M"
where
  "upsert_subscriptions self subscriptions0 backfill_related sync_timestamp =
     bnd (if backfill_enabled self backfill_related
          then backfill_customers self (get_unique_ids (render self) subscriptions0 ''customer'')
          else ok ()) (\<lambda>_.
     bnd (expand_entity self subscriptions0 ''items'' SubscriptionItemList) (\<lambda>subscriptions.
     bnd (upsert_many_with_timestamp_protection subscriptions ''subscriptions''
            (subscription_schema self) sync_timestamp) (\<lambda>affected.
     bnd (map_m (\<lambda>subscription.
            case items_data subscription of
              Some v \<Rightarrow> lift (iterate v)
            | None \<Rightarrow> ok []) subscriptions) (\<lambda>item_lists.
     bnd (upsert_subscription_items self (concat item_lists) sync_timestamp) (\<lambda>_.
     bnd (for_each (\<lambda>subscription.
            bnd (case items_data subscription of
                   Some v \<Rightarrow> lift (iterate v)
                 | None \<Rightarrow> ok []) (\<lambda>subscription_items.
            bnd (map_m (\<lambda>item. lift (jv_item item ''id'')) subscription_items) (\<lambda>sub_item_ids.
            bnd (lift (dict_item subscription ''id'')) (\<lambda>subscription_id.
            mark_deleted_subscription_items self subscription_id sub_item_ids))))
            subscriptions) (\<lambda>_.
     ok affected))))))"

definition backfill_subscriptions :: "engine \<Rightarrow> string list \<Rightarrow> (world, unit) M" where
  "backfill_subscriptions self subscription_ids =
     bnd (find_missing_entries ''subscriptions'' subscription_ids) (\<lambda>missing_ids.
     bnd (fetch_missing_entities self missing_ids Subscription) (\<lambda>subscriptions.
     bnd (upsert_subscriptions self subscriptions None None) (\<lambda>_. ok ())))"

definition upsert_subscription_schedules ::
  "engine \<Rightarrow> entity list \<Rightarrow> bool option \<Rightarrow> timestamp option \<Rightarrow> (world, nat) M"
where
  "upsert_subscription_schedules self subscription_schedules backfill_related sync_timestamp =
     bnd (if backfill_enabled self backfill_related
          then backfill_customers self
                 (get_unique_ids (render self) subscription_schedules ''customer'')
          else ok ()) (\<lambda>_.
     upsert_many_with_timestamp_protection subscription_schedules ''subscription_schedules''
       subscription_schedule_schema sync_timestamp)"

definition upsert_invoices ::
  "engine \<Rightarrow> entity list \<Rightarrow> bool option \<Rightarrow> timestamp option \<Rightarrow> (world, nat) M"
where
  "upsert_invoices self invoices0 backfill_related sync_timestamp =
     bnd (if backfill_enabled self backfill_related
          then bnd (backfill_customers self (get_unique_ids (render self) invoices0 ''customer''))
                 (\<lambda>_. backfill_subscriptions self
                        (get_unique_ids (render self) invoices0 ''subscription''))
          else ok ()) (\<lambda>_.
     bnd (expand_entity self invoices0 ''lines'' InvoiceLineItems) (\<lambda>invoices.
     upsert_many_with_timestamp_protection invoices ''invoices'' (invoice_schema self)
       sync_timestamp))"

definition backfill_invoices :: "engine \<Rightarrow> string list \<Rightarrow> (world, unit) M" where
  "backfill_invoices self invoice_ids =
     bnd (find_missing_entries ''invoices'' invoice_ids) (\<lambda>missing_ids.
     bnd (fetch_missing_entities self missing_ids Invoice) (\<lambda>invoices.
     bnd (upsert_invoices self invoices None None) (\<lambda>_. ok ())))"

definition upsert_charges ::
  "engine \<Rightarrow> entity list \<Rightarrow> bool option \<Rightarrow> timestamp option \<Rightarrow> (world, nat) M"
where
  "upsert_charges self charges0 backfill_related sync_timestamp =
     bnd (if backfill_enabled self backfill_related
          then bnd (backfill_customers self (get_unique_ids (render self) charges0 ''customer''))
                 (\<lambda>_. backfill_invoices self (get_unique_ids (render self) charges0 ''invoice''))
          else ok ()) (\<lambda>_.
     bnd (expand_entity self charges0 ''refunds'' RefundList) (\<lambda>charges.
     upsert_many_with_timestamp_protection charges ''charges'' (charge_schema self)
       sync_timestamp))"

definition backfill_charges :: "engine \<Rightarrow> string list \<Rightarrow> (world, unit) M" where
  "backfill_charges self charge_ids =
     bnd (find_missing_entries ''charges'' charge_ids) (\<lambda>missing_ids.
     bnd (fetch_missing_entities self missing_ids Charge) (\<lambda>charges.
     bnd (upsert_charges self charges None None) (\<lambda>_. ok ())))"

definition upsert_payment_intents ::
  "engine \<Rightarrow> entity list \<Rightarrow> bool option \<Rightarrow> timestamp option \<Rightarrow> (world, nat) M"
where
  "upsert_payment_intents self payment_intents backfill_related sync_timestamp =
     bnd (if backfill_enabled self backfill_related
          then bnd (backfill_customers self
                      (get_unique_ids (render self) payment_intents ''customer''))
                 (\<lambda>_. backfill_invoices self
                        (get_unique_ids (render self) payment_intents ''invoice''))
          else ok ()) (\<lambda>_.
     upsert_many_with_timestamp_protection payment_intents ''payment_intents''
       (payment_intent_schema self) sync_timestamp)"

definition backfill_payment_intents :: "engine \<Rightarrow> string list \<Rightarrow> (world, unit) M" where
  "backfill_payment_intents self payment_intent_ids =
     bnd (find_missing_entries ''payment_intents'' payment_intent_ids) (\<lambda>missing_ids.
     bnd (fetch_missing_entities self missing_ids PaymentIntent) (\<lambda>payment_intents.
     bnd (upsert_payment_intents self payment_intents None None) (\<lambda>_. ok ())))"

definition upsert_credit_notes ::
  "engine \<Rightarrow> entity list \<Rightarrow> bool option \<Rightarrow> timestamp option \<Rightarrow> (world, nat) M"
where
  "upsert_credit_notes self credit_notes0 backfill_related sync_timestamp =
     bnd (if backfill_enabled self backfill_related
          then bnd (backfill_customers self
                      (get_unique_ids (render self) credit_notes0 ''customer''))
                 (\<lambda>_. backfill_invoices self
                        (get_unique_ids (render self) credit_notes0 ''invoice''))
          else ok ()) (\<lambda>_.
     bnd (expand_entity self credit_notes0 ''lines'' CreditNoteLineItems) (\<lambda>credit_notes.
     upsert_many_with_timestamp_protection credit_notes ''credit_notes'' credit_note_schema
       sync_timestamp))"

text \<open>
  The price of a checkout-session line item, as \<^verbatim>\<open>_upsert_checkout_session_line_items\<close>
  extracts it in both of its loops.
\<close>

definition line_item_price :: "(jv \<Rightarrow> string) \<Rightarrow> entity \<Rightarrow> string option" where
  "line_item_price rep item =
     (let price = dict_get item ''price'' in
      if (case price of JDict d \<Rightarrow> truthy (dict_get d ''id'') | _ \<Rightarrow> False)
      then Some (py_str rep (case price of JDict d \<Rightarrow> dict_get d ''id'' | _ \<Rightarrow> JNone))
      else if truthy price then Some (py_str rep price)
      else None)"

definition upsert_checkout_session_line_items ::
  "engine \<Rightarrow> entity list \<Rightarrow> jv \<Rightarrow> timestamp option \<Rightarrow> (world, unit) M"
where
  "upsert_checkout_session_line_items self line_items checkout_session_id sync_timestamp =
     (let price_ids = concat (map (\<lambda>item. case line_item_price (render self) item of
                                            Some p \<Rightarrow> [p] | None \<Rightarrow> []) line_items)
      in
        bnd (backfill_prices self (filter (\<lambda>pid. pid \<noteq> []) price_ids)) (\<lambda>_.
        bnd (upsert_many_with_timestamp_protection
               (map (\<lambda>item.
                  AList.update ''checkout_session'' checkout_session_id
                    (AList.update ''price''
                       (case line_item_price (render self) item of
                          Some p \<Rightarrow> JStr p | None \<Rightarrow> JNone) item)) line_items)
               ''checkout_session_line_items'' checkout_session_line_item_schema
               sync_timestamp) (\<lambda>_.
        ok ())))"

definition fill_checkout_sessions_line_items ::
  "engine \<Rightarrow> jv list \<Rightarrow> timestamp option \<Rightarrow> (world, unit) M"
where
  "fill_checkout_sessions_line_items self checkout_session_ids sync_timestamp =
     for_each (\<lambda>checkout_session_id.
       bnd (stripe_list_drained self (CheckoutSessionLineItems checkout_session_id))
         (\<lambda>line_items.
       upsert_checkout_session_line_items self line_items checkout_session_id sync_timestamp))
       checkout_session_ids"

definition upsert_checkout_sessions ::
  "engine \<Rightarrow> entity list \<Rightarrow> bool option \<Rightarrow> timestamp option \<Rightarrow> (world, nat) M"
where
  "upsert_checkout_sessions self checkout_sessions backfill_related sync_timestamp =
     bnd (if backfill_enabled self backfill_related
          then
            bnd (backfill_customers self
                   (get_unique_ids (render self) checkout_sessions ''customer'')) (\<lambda>_.
            bnd (backfill_subscriptions self
                   (get_unique_ids (render self) checkout_sessions ''subscription'')) (\<lambda>_.
            bnd (backfill_payment_intents self
                   (get_unique_ids (render self) checkout_sessions ''payment_intent'')) (\<lambda>_.
            backfill_invoices self
              (get_unique_ids (render self) checkout_sessions ''invoice''))))
          else ok ()) (\<lambda>_.
     bnd (upsert_many_with_timestamp_protection checkout_sessions ''checkout_sessions''
            (checkout_session_schema self) sync_timestamp) (\<lambda>affected.
     bnd (map_m (\<lambda>cs. lift (dict_item cs ''id'')) checkout_sessions) (\<lambda>ids.
     bnd (fill_checkout_sessions_line_items self ids sync_timestamp) (\<lambda>_.
     ok affected))))"

definition upsert_early_fraud_warning ::
  "engine \<Rightarrow> entity list \<Rightarrow> bool option \<Rightarrow> timestamp option \<Rightarrow> (world, nat) M"
where
  "upsert_early_fraud_warning self early_fraud_warnings backfill_related sync_timestamp =
     bnd (if backfill_enabled self backfill_related
          then bnd (backfill_payment_intents self
                      (get_unique_ids (render self) early_fraud_warnings ''payment_intent''))
                 (\<lambda>_. backfill_charges self
                        (get_unique_ids (render self) early_fraud_warnings ''charge''))
          else ok ()) (\<lambda>_.
     upsert_many_with_timestamp_protection early_fraud_warnings ''early_fraud_warnings''
       early_fraud_warning_schema sync_timestamp)"

definition upsert_refunds ::
  "engine \<Rightarrow> entity list \<Rightarrow> bool option \<Rightarrow> timestamp option \<Rightarrow> (world, nat) M"
where
  "upsert_refunds self refunds backfill_related sync_timestamp =
     bnd (if backfill_enabled self backfill_related
          then bnd (backfill_payment_intents self
                      (get_unique_ids (render self) refunds ''payment_intent''))
                 (\<lambda>_. backfill_charges self (get_unique_ids (render self) refunds ''charge''))
          else ok ()) (\<lambda>_.
     upsert_many_with_timestamp_protection refunds ''refunds'' refund_schema sync_timestamp)"

definition upsert_reviews ::
  "engine \<Rightarrow> entity list \<Rightarrow> bool option \<Rightarrow> timestamp option \<Rightarrow> (world, nat) M"
where
  "upsert_reviews self reviews backfill_related sync_timestamp =
     bnd (if backfill_enabled self backfill_related
          then bnd (backfill_payment_intents self
                      (get_unique_ids (render self) reviews ''payment_intent''))
                 (\<lambda>_. backfill_charges self (get_unique_ids (render self) reviews ''charge''))
          else ok ()) (\<lambda>_.
     upsert_many_with_timestamp_protection reviews ''reviews'' review_schema sync_timestamp)"

definition upsert_disputes ::
  "engine \<Rightarrow> entity list \<Rightarrow> bool option \<Rightarrow> timestamp option \<Rightarrow> (world, nat) M"
where
  "upsert_disputes self disputes backfill_related sync_timestamp =
     bnd (if backfill_enabled self backfill_related
          then backfill_charges self (get_unique_ids (render self) disputes ''charge'')
          else ok ()) (\<lambda>_.
     upsert_many_with_timestamp_protection disputes ''disputes'' (dispute_schema self)
       sync_timestamp)"

text \<open>
  The ids that \<^verbatim>\<open>_upsert_invoice_payments\<close> collects from the \<^verbatim>\<open>payment\<close> field
  of the invoice payments, for the payment of the given type.
\<close>

definition payment_ids :: "(jv \<Rightarrow> string) \<Rightarrow> string \<Rightarrow> entity list \<Rightarrow> string list" where
  "payment_ids rep payment_type invoice_payments =
     concat (map (\<lambda>invoice_payment.
       case dict_get_default invoice_payment ''payment'' (JDict []) of
         JDict payment \<Rightarrow>
           if dict_get payment ''type'' = JStr ''payment_intent'' \<and>
              truthy (dict_get payment ''payment_intent'')
           then (if payment_type = ''payment_intent''
                 then [py_str rep (dict_get payment ''payment_intent'')] else [])
           else if dict_get payment ''type'' = JStr ''charge'' \<and>
                   truthy (dict_get payment ''charge'')
           then (if payment_type = ''charge''
                 then [py_str rep (dict_get payment ''charge'')] else [])
           else []
       | _ \<Rightarrow> []) invoice_payments)"

definition upsert_invoice_payments ::
  "engine \<Rightarrow> entity list \<Rightarrow> bool option \<Rightarrow> timestamp option \<Rightarrow> (world, nat) M"
where
  "upsert_invoice_payments self invoice_payments backfill_related sync_timestamp =
     bnd (if backfill_enabled self backfill_related
          then
            bnd (backfill_invoices self
                   (get_unique_ids (render self) invoice_payments ''invoice'')) (\<lambda>_.
            bnd (backfill_payment_intents self
                   (remdups (payment_ids (render self) ''payment_intent'' invoice_payments)))
              (\<lambda>_.
            backfill_charges self
              (remdups (payment_ids (render self) ''charge'' invoice_payments))))
          else ok ()) (\<lambda>_.
     upsert_many_with_timestamp_protection invoice_payments ''invoice_payments''
       invoice_payment_schema sync_timestamp)"

definition upsert_payment_methods ::
  "engine \<Rightarrow> entity list \<Rightarrow> bool option \<Rightarrow> timestamp option \<Rightarrow> (world, nat) M"
where
  "upsert_payment_methods self payment_methods backfill_related sync_timestamp =
     bnd (if backfill_enabled self backfill_related
          then backfill_customers self
                 (get_unique_ids (render self) payment_methods ''customer'')
          else ok ()) (\<lambda>_.
     upsert_many_with_timestamp_protection payment_methods ''payment_methods''
       payment_methods_schema sync_timestamp)"

definition upsert_setup_intents ::
  "engine \<Rightarrow> entity list \<Rightarrow> bool option \<Rightarrow> timestamp option \<Rightarrow> (world, nat) M"
where
  "upsert_setup_intents self setup_intents backfill_related sync_timestamp =
     bnd (if backfill_enabled self backfill_related
          then backfill_customers self (get_unique_ids (render self) setup_intents ''customer'')
          else ok ()) (\<lambda>_.
     upsert_many_with_timestamp_protection setup_intents ''setup_intents''
       setup_intents_schema sync_timestamp)"

definition upsert_tax_ids ::
  "engine \<Rightarrow> entity list \<Rightarrow> bool option \<Rightarrow> timestamp option \<Rightarrow> (world, nat) M"
where
  "upsert_tax_ids self tax_ids backfill_related sync_timestamp =
     bnd (if backfill_enabled self backfill_related
          then backfill_customers self (get_unique_ids (render self) tax_ids ''customer'')
          else ok ()) (\<lambda>_.
     upsert_many_with_timestamp_protection tax_ids ''tax_ids'' tax_id_schema sync_timestamp)"

definition delete_tax_id :: "engine \<Rightarrow> jv \<Rightarrow> (world, bool) M" where
  "delete_tax_id self i = delete ''tax_ids'' i"

section \<open>Reconciliation of active entitlements\<close>

definition delete_removed_active_entitlements :: "engine \<Rightarrow> jv \<Rightarrow> jv list \<Rightarrow> (world, nat) M" where
  "delete_removed_active_entitlements self customer_id current_active_entitlement_ids =
     bnd (query (DeleteActiveEntitlements customer_id current_active_entitlement_ids))
       (\<lambda>result. ok (rowCount result))"

definition entitlement_row :: "jv \<Rightarrow> entity \<Rightarrow> error + entity" where
  "entitlement_row customer_id entitlement =
     (case (case dict_get entitlement ''feature'' of
              JStr f \<Rightarrow> Inr (JStr f)
            | JDict d \<Rightarrow> Inr (dict_get d ''id'')
            | _ \<Rightarrow> Inl (AttributeError ''get'')) of
        Inl e \<Rightarrow> Inl e
      | Inr feature_id \<Rightarrow>
          (case dict_item entitlement ''id'' of
             Inl e \<Rightarrow> Inl e
           | Inr i \<Rightarrow>
               (case dict_item entitlement ''object'' of
                  Inl e \<Rightarrow> Inl e
                | Inr obj \<Rightarrow>
                    (case dict_item entitlement ''livemode'' of
                       Inl e \<Rightarrow> Inl e
                     | Inr livemode \<Rightarrow>
                         Inr [(''id'', i), (''object'', obj), (''feature'', feature_id),
                              (''customer'', customer_id), (''livemode'', livemode),
                              (''lookup_key'', dict_get entitlement ''lookup_key'')]))))"

definition upsert_active_entitlements ::
  "engine \<Rightarrow> jv \<Rightarrow> entity list \<Rightarrow> bool option \<Rightarrow> timestamp option \<Rightarrow> (world, nat) M"
where
  "upsert_active_entitlements self customer_id active_entitlements backfill_related
       sync_timestamp =
     bnd (if backfill_enabled self backfill_related
          then bnd (backfill_customers self
                      (get_unique_ids (render self) active_entitlements ''customer''))
                 (\<lambda>_. backfill_features self
                        (get_unique_ids (render self) active_entitlements ''feature''))
          else ok ()) (\<lambda>_.
     bnd (map_m (\<lambda>entitlement. lift (entitlement_row customer_id entitlement))
            active_entitlements) (\<lambda>entitlements.
     upsert_many_with_timestamp_protection entitlements ''active_entitlements''
       active_entitlement_schema sync_timestamp))"

section \<open>Event router\<close>

text \<open>
  \<^verbatim>\<open>datetime.fromtimestamp\<close> raises for a number of seconds outside the range of the
  platform, so the timestamp of an event is a value or an error.
\<close>

definition get_sync_timestamp :: "engine \<Rightarrow> event \<Rightarrow> bool \<Rightarrow> error + timestamp" where
  "get_sync_timestamp self ev refetched =
     (if refetched then Inr (utcnow self) else fromtimestamp self (created ev))"

definition should_refetch_entity :: "engine \<Rightarrow> entity \<Rightarrow> bool" where
  "should_refetch_entity self entity =
     (case revalidate_objects_via_stripe_api (config self) of
        None \<Rightarrow> False
      | Some kinds \<Rightarrow>
          if kinds = [] then False
          else (case dict_get entity ''object'' of JStr t \<Rightarrow> t \<in> set kinds | _ \<Rightarrow> False))"

definition fetch_or_use_webhook_data ::
  "engine \<Rightarrow> entity \<Rightarrow> resource \<Rightarrow> (entity \<Rightarrow> bool) option \<Rightarrow> (world, entity \<times> bool) M"
where
  "fetch_or_use_webhook_data self entity fetch_fn entity_in_final_state =
     (if \<not> truthy (dict_get entity ''id'') then ok (entity, False)
      else if (case entity_in_final_state of Some final \<Rightarrow> final entity | None \<Rightarrow> False)
      then ok (entity, False)
      else if should_refetch_entity self entity then
        bnd (stripe_retrieve self fetch_fn (dict_get entity ''id'')) (\<lambda>fetched_entity.
        ok (fetched_entity, True))
      else ok (entity, False))"

text \<open>The final-state tests that \<^verbatim>\<open>process_event\<close> passes, one per kind that has one.\<close>

definition status_in :: "string list \<Rightarrow> entity \<Rightarrow> bool" where
  "status_in finals entity = (case dict_get entity ''status'' of JStr st \<Rightarrow> st \<in> set finals | _ \<Rightarrow> False)"

definition charge_final :: "entity \<Rightarrow> bool" where
  "charge_final = status_in [''failed'', ''succeeded'']"

text \<open>\<^verbatim>\<open>customer.get('deleted') == True\<close>: in Python the integer 1 equals \<^verbatim>\<open>True\<close>.\<close>

definition customer_final :: "entity \<Rightarrow> bool" where
  "customer_final customer =
     (dict_get customer ''deleted'' = JBool True \<or> dict_get customer ''deleted'' = JInt 1)"

definition subscription_final :: "entity \<Rightarrow> bool" where
  "subscription_final = status_in [''canceled'', ''incomplete_expired'']"

definition invoice_final :: "entity \<Rightarrow> bool" where
  "invoice_final = status_in [''void'']"

definition setup_intent_final :: "entity \<Rightarrow> bool" where
  "setup_intent_final = status_in [''canceled'', ''succeeded'']"

definition subscription_schedule_final :: "entity \<Rightarrow> bool" where
  "subscription_schedule_final = status_in [''canceled'', ''completed'']"

definition dispute_final :: "entity \<Rightarrow> bool" where
  "dispute_final = status_in [''won'', ''lost'']"

definition payment_intent_final :: "entity \<Rightarrow> bool" where
  "payment_intent_final = status_in [''canceled'', ''succeeded'']"

definition credit_note_final :: "entity \<Rightarrow> bool" where
  "credit_note_final = status_in [''void'']"

text \<open>
  \<^verbatim>\<open>if self.config.logger: self.config.logger.info(f"... {entity['id']}")\<close>: the
  message is built only when a logger is set, and building it reads the id.
\<close>

definition log_received :: "engine \<Rightarrow> entity \<Rightarrow> string \<Rightarrow> (world, unit) M" where
  "log_received self entity key =
     (if logger (config self) then bnd (lift (dict_item entity key)) (\<lambda>_. ok ()) else ok ())"

definition try_except :: "('w, 'a) M \<Rightarrow> (error \<Rightarrow> ('w, 'a) M) \<Rightarrow> ('w, 'a) M" where
  "try_except body handler w =
     (case body w of (Inl e, w1) \<Rightarrow> handler e w1 | (Inr x, w1) \<Rightarrow> (Inr x, w1))"

text \<open>
  \<^verbatim>\<open>except stripe.error.InvalidRequestError as err: if err.code == 'resource_missing':
  (delete) else: raise\<close>; any other exception passes through.
\<close>

definition except_resource_missing :: "(world, unit) M \<Rightarrow> error \<Rightarrow> (world, unit) M" where
  "except_resource_missing on_missing err =
     (case err of
        InvalidRequestError code \<Rightarrow>
          if code = Some ''resource_missing'' then on_missing else raise err
      | _ \<Rightarrow> raise err)"

definition discard :: "('w, 'a) M \<Rightarrow> ('w, unit) M" where
  "discard m = bnd m (\<lambda>_. ok ())"

text \<open>
  The steps that most branches of \<^verbatim>\<open>process_event\<close> repeat: take the embedded
  object or refetch it, log, and upsert it alone with the sync timestamp of the event.
\<close>

definition webhook_upsert ::
  "engine \<Rightarrow> event \<Rightarrow> resource \<Rightarrow> (entity \<Rightarrow> bool) option \<Rightarrow>
   (entity list \<Rightarrow> timestamp option \<Rightarrow> (world, 'a) M) \<Rightarrow> (world, unit) M"
where
  "webhook_upsert self ev fetch_fn entity_in_final_state upsert =
     bnd (fetch_or_use_webhook_data self (data_object ev) fetch_fn entity_in_final_state)
       (\<lambda>(entity, refetched).
     bnd (log_received self entity ''id'') (\<lambda>_.
     bnd (lift (get_sync_timestamp self ev refetched)) (\<lambda>sync_timestamp.
     discard (upsert [entity] (Some sync_timestamp)))))"

text \<open>The same steps for a \<^verbatim>\<open>*.deleted\<close> event of a kind that is hard-deleted.\<close>

definition webhook_delete ::
  "engine \<Rightarrow> event \<Rightarrow> (jv \<Rightarrow> (world, bool) M) \<Rightarrow> (world, unit) M"
where
  "webhook_delete self ev delete_fn =
     bnd (log_received self (data_object ev) ''id'') (\<lambda>_.
     bnd (lift (dict_item (data_object ev) ''id'')) (\<lambda>i.
     discard (delete_fn i)))"

text \<open>The branch of \<^verbatim>\<open>entitlements.active_entitlement_summary.updated\<close>.\<close>

definition revalidate_entitlements :: "engine \<Rightarrow> bool" where
  "revalidate_entitlements self =
     (case revalidate_objects_via_stripe_api (config self) of
        None \<Rightarrow> False
      | Some kinds \<Rightarrow> kinds \<noteq> [] \<and> ''entitlements'' \<in> set kinds)"

definition process_entitlement_summary :: "engine \<Rightarrow> event \<Rightarrow> (world, unit) M" where
  "process_entitlement_summary self ev =
     (let summary = data_object ev in
      bnd (lift (dict_item summary ''entitlements'')) (\<lambda>entitlements0.
      bnd (if revalidate_entitlements self then
             bnd (lift (dict_item summary ''customer'')) (\<lambda>customer.
             bnd (stripe_list_page self (ActiveEntitlementList customer)) (\<lambda>result.
             ok (JDict result, True)))
           else ok (entitlements0, False)) (\<lambda>(entitlements, refetched).
      bnd (log_received self summary ''customer'') (\<lambda>_.
      bnd (lift (dict_item summary ''customer'')) (\<lambda>customer.
      bnd (lift (jv_item entitlements ''data'')) (\<lambda>data.
      bnd (lift (iterate data)) (\<lambda>active_entitlements.
      bnd (map_m (\<lambda>e. lift (jv_item e ''id'')) active_entitlements) (\<lambda>ids.
      bnd (delete_removed_active_entitlements self customer ids) (\<lambda>_.
      bnd (lift (get_sync_timestamp self ev refetched)) (\<lambda>sync_timestamp.
      discard (upsert_active_entitlements self customer (map dict_of active_entitlements)
                 (Some False) (Some sync_timestamp))))))))))))"

definition process_event :: "engine \<Rightarrow> event \<Rightarrow> (world, unit) M" where
  "process_event self ev =
     (let event_type = event_type ev in
      if event_type \<in> set [''charge.captured'', ''charge.expired'', ''charge.failed'',
           ''charge.pending'', ''charge.refunded'', ''charge.succeeded'', ''charge.updated'']
      then webhook_upsert self ev Charge (Some charge_final)
             (\<lambda>es. upsert_charges self es (Some False))
      else if event_type = ''customer.deleted'' then
        bnd (lift (dict_item (data_object ev) ''id'')) (\<lambda>i.
        bnd (lift (get_sync_timestamp self ev False)) (\<lambda>sync_timestamp.
        discard (upsert_customers self
                   [[(''id'', i), (''object'', JStr ''customer''), (''deleted'', JBool True)]]
                   (Some sync_timestamp))))
      else if event_type \<in> set [''checkout.session.async_payment_failed'',
           ''checkout.session.async_payment_succeeded'', ''checkout.session.completed'',
           ''checkout.session.expired'']
      then webhook_upsert self ev CheckoutSession None
             (\<lambda>es. upsert_checkout_sessions self es (Some False))
      else if event_type \<in> set [''customer.created'', ''customer.updated'']
      then webhook_upsert self ev Customer (Some customer_final) (upsert_customers self)
      else if event_type \<in> set [''customer.subscription.created'',
           ''customer.subscription.deleted'', ''customer.subscription.paused'',
           ''customer.subscription.pending_update_applied'',
           ''customer.subscription.pending_update_expired'',
           ''customer.subscription.trial_will_end'', ''customer.subscription.resumed'',
           ''customer.subscription.updated'']
      then webhook_upsert self ev Subscription (Some subscription_final)
             (\<lambda>es. upsert_subscriptions self es (Some False))
      else if event_type \<in> set [''customer.tax_id.updated'', ''customer.tax_id.created'']
      then webhook_upsert self ev TaxId None (\<lambda>es. upsert_tax_ids self es (Some False))
      else if event_type = ''customer.tax_id.deleted''
      then webhook_delete self ev (delete_tax_id self)
      else if event_type \<in> set [''invoice.created'', ''invoice.deleted'', ''invoice.finalized'',
           ''invoice.finalization_failed'', ''invoice.paid'', ''invoice.payment_action_required'',
           ''invoice.payment_failed'', ''invoice.payment_succeeded'', ''invoice.upcoming'',
           ''invoice.sent'', ''invoice.voided'', ''invoice.marked_uncollectible'',
           ''invoice.updated'']
      then webhook_upsert self ev Invoice (Some invoice_final)
             (\<lambda>es. upsert_invoices self es (Some False))
      else if event_type \<in> set [''product.created'', ''product.updated'']
      then try_except
             (webhook_upsert self ev Product None (upsert_products self))
             (except_resource_missing
                (bnd (lift (dict_item (data_object ev) ''id'')) (\<lambda>i.
                 discard (delete_product self i))))
      else if event_type = ''product.deleted''
      then webhook_delete self ev (delete_product self)
      else if event_type \<in> set [''price.created'', ''price.updated'']
      then try_except
             (webhook_upsert self ev Price None (\<lambda>es. upsert_prices self es (Some False)))
             (except_resource_missing
                (bnd (lift (dict_item (data_object ev) ''id'')) (\<lambda>i.
                 discard (delete_price self i))))
      else if event_type = ''price.deleted''
      then webhook_delete self ev (delete_price self)
      else if event_type \<in> set [''plan.created'', ''plan.updated'']
      then try_except
             (webhook_upsert self ev Plan None (\<lambda>es. upsert_plans self es (Some False)))
             (except_resource_missing
                (bnd (lift (dict_item (data_object ev) ''id'')) (\<lambda>i.
                 discard (delete_plan self i))))
      else if event_type = ''plan.deleted''
      then webhook_delete self ev (delete_plan self)
      else if event_type \<in> set [''setup_intent.canceled'', ''setup_intent.created'',
           ''setup_intent.requires_action'', ''setup_intent.setup_failed'',
           ''setup_intent.succeeded'']
      then webhook_upsert self ev SetupIntent (Some setup_intent_final)
             (\<lambda>es. upsert_setup_intents self es (Some False))
      else if event_type \<in> set [''subscription_schedule.aborted'',
           ''subscription_schedule.canceled'', ''subscription_schedule.completed'',
           ''subscription_schedule.created'', ''subscription_schedule.expiring'',
           ''subscription_schedule.released'', ''subscription_schedule.updated'']
      then webhook_upsert self ev SubscriptionSchedule (Some subscription_schedule_final)
             (\<lambda>es. upsert_subscription_schedules self es (Some False))
      else if event_type \<in> set [''payment_method.attached'',
           ''payment_method.automatically_updated'', ''payment_method.detached'',
           ''payment_method.updated'']
      then webhook_upsert self ev PaymentMethod None
             (\<lambda>es. upsert_payment_methods self es (Some False))
      else if event_type \<in> set [''charge.dispute.created'', ''charge.dispute.funds_reinstated'',
           ''charge.dispute.funds_withdrawn'', ''charge.dispute.updated'',
           ''charge.dispute.closed'']
      then webhook_upsert self ev Dispute (Some dispute_final)
             (\<lambda>es. upsert_disputes self es (Some False))
      else if event_type \<in> set [''payment_intent.amount_capturable_updated'',
           ''payment_intent.canceled'', ''payment_intent.created'',
           ''payment_intent.partially_funded'', ''payment_intent.payment_failed'',
           ''payment_intent.processing'', ''payment_intent.requires_action'',
           ''payment_intent.succeeded'']
      then webhook_upsert self ev PaymentIntent (Some payment_intent_final)
             (\<lambda>es. upsert_payment_intents self es (Some False))
      else if event_type \<in> set [''credit_note.created'', ''credit_note.updated'',
           ''credit_note.voided'']
      then webhook_upsert self ev CreditNote (Some credit_note_final)
             (\<lambda>es. upsert_credit_notes self es (Some False))
      else if event_type \<in> set [''radar.early_fraud_warning.created'',
           ''radar.early_fraud_warning.updated'']
      then webhook_upsert self ev EarlyFraudWarning None
             (\<lambda>es. upsert_early_fraud_warning self es (Some False))
      else if event_type \<in> set [''refund.created'', ''refund.failed'', ''refund.updated'',
           ''charge.refund.updated'']
      then webhook_upsert self ev Refund None (\<lambda>es. upsert_refunds self es (Some False))
      else if event_type \<in> set [''review.closed'', ''review.opened'']
      then webhook_upsert self ev Review None (\<lambda>es. upsert_reviews self es (Some False))
      else if event_type = ''entitlements.active_entitlement_summary.updated''
      then process_entitlement_summary self ev
      else if event_type = ''invoice_payment.paid''
      then webhook_upsert self ev InvoicePayment None
             (\<lambda>es. upsert_invoice_payments self es (Some False))
      else raise (Exception ''Unhandled webhook event''))"

section \<open>Synchronising one entity by its id\<close>

definition sync_single_entity :: "engine \<Rightarrow> string \<Rightarrow> (world, unit) M" where
  "sync_single_entity self stripe_id =
     (if prefix ''cus_'' stripe_id then
        bnd (stripe_retrieve self Customer (JStr stripe_id)) (\<lambda>customer.
          if customer \<noteq> [] \<and> \<not> truthy (dict_get customer ''deleted'')
          then discard (upsert_customers self [customer] None)
          else ok ())
      else if prefix ''in_'' stripe_id then
        bnd (stripe_retrieve self Invoice (JStr stripe_id)) (\<lambda>invoice.
        discard (upsert_invoices self [invoice] None None))
      else if prefix ''price_'' stripe_id then
        bnd (stripe_retrieve self Price (JStr stripe_id)) (\<lambda>price.
        discard (upsert_prices self [price] None None))
      else if prefix ''prod_'' stripe_id then
        bnd (stripe_retrieve self Product (JStr stripe_id)) (\<lambda>product.
        discard (upsert_products self [product] None))
      else if prefix ''sub_'' stripe_id then
        bnd (stripe_retrieve self Subscription (JStr stripe_id)) (\<lambda>subscription.
        discard (upsert_subscriptions self [subscription] None None))
      else if prefix ''seti_'' stripe_id then
        bnd (stripe_retrieve self SetupIntent (JStr stripe_id)) (\<lambda>setup_intent.
        discard (upsert_setup_intents self [setup_intent] None None))
      else if prefix ''pm_'' stripe_id then
        bnd (stripe_retrieve self PaymentMethod (JStr stripe_id)) (\<lambda>payment_method.
        discard (upsert_payment_methods self [payment_method] (Some False) None))
      else if prefix ''dp_'' stripe_id \<or> prefix ''du_'' stripe_id then
        bnd (stripe_retrieve self Dispute (JStr stripe_id)) (\<lambda>dispute.
        discard (upsert_disputes self [dispute] None None))
      else if prefix ''ch_'' stripe_id then
        bnd (stripe_retrieve self Charge (JStr stripe_id)) (\<lambda>charge.
        discard (upsert_charges self [charge] (Some True) None))
      else if prefix ''pi_'' stripe_id then
        bnd (stripe_retrieve self PaymentIntent (JStr stripe_id)) (\<lambda>payment_intent.
        discard (upsert_payment_intents self [payment_intent] None None))
      else if prefix ''txi_'' stripe_id then
        bnd (stripe_retrieve self TaxId (JStr stripe_id)) (\<lambda>tax_id.
        discard (upsert_tax_ids self [tax_id] None None))
      else if prefix ''cn_'' stripe_id then
        bnd (stripe_retrieve self CreditNote (JStr stripe_id)) (\<lambda>credit_note.
        discard (upsert_credit_notes self [credit_note] None None))
      else if prefix ''issfr_'' stripe_id then
        bnd (stripe_retrieve self EarlyFraudWarning (JStr stripe_id)) (\<lambda>early_fraud_warning.
        discard (upsert_early_fraud_warning self [early_fraud_warning] None None))
      else if prefix ''prv_'' stripe_id then
        bnd (stripe_retrieve self Review (JStr stripe_id)) (\<lambda>review.
        discard (upsert_reviews self [review] None None))
      else if prefix ''re_'' stripe_id then
        bnd (stripe_retrieve self Refund (JStr stripe_id)) (\<lambda>refund.
        discard (upsert_refunds self [refund] None None))
      else if prefix ''inpay_'' stripe_id then
        bnd (stripe_retrieve self InvoicePayment (JStr stripe_id)) (\<lambda>invoice_payment.
        discard (upsert_invoice_payments self [invoice_payment] None None))
      else if prefix ''feat_'' stripe_id then
        bnd (stripe_retrieve self Feature (JStr stripe_id)) (\<lambda>feature.
        discard (upsert_features self [feature] None))
      else if prefix ''cs_'' stripe_id then
        bnd (stripe_retrieve self CheckoutSession (JStr stripe_id)) (\<lambda>checkout_session.
        discard (upsert_checkout_sessions self [checkout_session] None None))
      else ok ())"

section \<open>Backfill orchestrator: one operation per entity kind\<close>

text \<open>
  The parameters of a backfill are a dictionary (\<^verbatim>\<open>SyncBackfillParams\<close>) or
  \<^verbatim>\<open>None\<close>. \<^verbatim>\<open>if sync_params and sync_params.get('created'):
  params['created'] = sync_params['created']\<close> adds the creation-time range to the keyword
  arguments of the listing.
\<close>

definition with_created :: "entity \<Rightarrow> entity option \<Rightarrow> entity" where
  "with_created params sync_params =
     (case sync_params of
        None \<Rightarrow> params
      | Some d \<Rightarrow>
          if d \<noteq> [] \<and> truthy (dict_get d ''created'')
          then AList.update ''created'' (dict_get d ''created'') params
          else params)"

text \<open>
  \<^verbatim>\<open>sync_params.get('backfill_related_entities') if sync_params else None\<close>, as the
  upsert then reads it: \<^verbatim>\<open>None\<close> defers to the configuration, any other value counts
  by its truthiness.
\<close>

definition backfill_param :: "entity option \<Rightarrow> bool option" where
  "backfill_param sync_params =
     (case sync_params of
        None \<Rightarrow> None
      | Some d \<Rightarrow>
          if d = [] then None
          else (case dict_get d ''backfill_related_entities'' of
                  JNone \<Rightarrow> None
                | v \<Rightarrow> Some (truthy v)))"

text \<open>
  \<^verbatim>\<open>if sync_params and sync_params.get('pagination'):
  params.update(sync_params['pagination'])\<close>, for a pagination that is a dictionary
  (\<^verbatim>\<open>PaginationParams\<close>); the model raises for any other truthy value.
\<close>

definition with_pagination :: "entity \<Rightarrow> entity option \<Rightarrow> error + entity" where
  "with_pagination params sync_params =
     (case sync_params of
        None \<Rightarrow> Inr params
      | Some d \<Rightarrow>
          if d \<noteq> [] \<and> truthy (dict_get d ''pagination'')
          then (case dict_get d ''pagination'' of
                  JDict pagination \<Rightarrow> Inr (fold (\<lambda>(k, v). AList.update k v) pagination params)
                | _ \<Rightarrow> Inl (TypeError ''update''))
          else Inr params)"

definition sync_products :: "engine \<Rightarrow> entity option \<Rightarrow> (world, Sync) M" where
  "sync_products self sync_params =
     fetch_and_upsert
       (stripe_list self (ResourceList Product (with_created [(''limit'', JInt 100)] sync_params)))
       (\<lambda>products. upsert_products self products None)"

definition sync_prices :: "engine \<Rightarrow> entity option \<Rightarrow> (world, Sync) M" where
  "sync_prices self sync_params =
     fetch_and_upsert
       (stripe_list self (ResourceList Price (with_created [(''limit'', JInt 100)] sync_params)))
       (\<lambda>prices. upsert_prices self prices (backfill_param sync_params) None)"

definition sync_plans :: "engine \<Rightarrow> entity option \<Rightarrow> (world, Sync) M" where
  "sync_plans self sync_params =
     fetch_and_upsert
       (stripe_list self (ResourceList Plan (with_created [(''limit'', JInt 100)] sync_params)))
       (\<lambda>plans. upsert_plans self plans (backfill_param sync_params) None)"

definition sync_customers :: "engine \<Rightarrow> entity option \<Rightarrow> (world, Sync) M" where
  "sync_customers self sync_params =
     fetch_and_upsert
       (stripe_list self (ResourceList Customer (with_created [(''limit'', JInt 100)] sync_params)))
       (\<lambda>items. upsert_customers self items None)"

definition sync_subscriptions :: "engine \<Rightarrow> entity option \<Rightarrow> (world, Sync) M" where
  "sync_subscriptions self sync_params =
     fetch_and_upsert
       (stripe_list self (ResourceList Subscription (with_created [(''status'', JStr ''all''), (''limit'', JInt 100)] sync_params)))
       (\<lambda>items. upsert_subscriptions self items (backfill_param sync_params) None)"

definition sync_subscription_schedules :: "engine \<Rightarrow> entity option \<Rightarrow> (world, Sync) M" where
  "sync_subscription_schedules self sync_params =
     fetch_and_upsert
       (stripe_list self (ResourceList SubscriptionSchedule (with_created [(''limit'', JInt 100)] sync_params)))
       (\<lambda>items. upsert_subscription_schedules self items (backfill_param sync_params) None)"

definition sync_invoices :: "engine \<Rightarrow> entity option \<Rightarrow> (world, Sync) M" where
  "sync_invoices self sync_params =
     fetch_and_upsert
       (stripe_list self (ResourceList Invoice (with_created [(''limit'', JInt 100)] sync_params)))
       (\<lambda>items. upsert_invoices self items (backfill_param sync_params) None)"

definition sync_charges :: "engine \<Rightarrow> entity option \<Rightarrow> (world, Sync) M" where
  "sync_charges self sync_params =
     fetch_and_upsert
       (stripe_list self (ResourceList Charge (with_created [(''limit'', JInt 100)] sync_params)))
       (\<lambda>items. upsert_charges self items (backfill_param sync_params) None)"

definition sync_setup_intents :: "engine \<Rightarrow> entity option \<Rightarrow> (world, Sync) M" where
  "sync_setup_intents self sync_params =
     fetch_and_upsert
       (stripe_list self (ResourceList SetupIntent (with_created [(''limit'', JInt 100)] sync_params)))
       (\<lambda>items. upsert_setup_intents self items (backfill_param sync_params) None)"

definition sync_payment_intents :: "engine \<Rightarrow> entity option \<Rightarrow> (world, Sync) M" where
  "sync_payment_intents self sync_params =
     fetch_and_upsert
       (stripe_list self (ResourceList PaymentIntent (with_created [(''limit'', JInt 100)] sync_params)))
       (\<lambda>items. upsert_payment_intents self items (backfill_param sync_params) None)"

definition sync_tax_ids :: "engine \<Rightarrow> entity option \<Rightarrow> (world, Sync) M" where
  "sync_tax_ids self sync_params =
     fetch_and_upsert
       (stripe_list self (ResourceList TaxId [(''limit'', JInt 100)]))
       (\<lambda>items. upsert_tax_ids self items (backfill_param sync_params) None)"

definition sync_disputes :: "engine \<Rightarrow> entity option \<Rightarrow> (world, Sync) M" where
  "sync_disputes self sync_params =
     fetch_and_upsert
       (stripe_list self (ResourceList Dispute (with_created [(''limit'', JInt 100)] sync_params)))
       (\<lambda>items. upsert_disputes self items (backfill_param sync_params) None)"

definition sync_early_fraud_warnings :: "engine \<Rightarrow> entity option \<Rightarrow> (world, Sync) M" where
  "sync_early_fraud_warnings self sync_params =
     fetch_and_upsert
       (stripe_list self (ResourceList EarlyFraudWarning (with_created [(''limit'', JInt 100)] sync_params)))
       (\<lambda>items. upsert_early_fraud_warning self items (backfill_param sync_params) None)"

definition sync_refunds :: "engine \<Rightarrow> entity option \<Rightarrow> (world, Sync) M" where
  "sync_refunds self sync_params =
     fetch_and_upsert
       (stripe_list self (ResourceList Refund (with_created [(''limit'', JInt 100)] sync_params)))
       (\<lambda>items. upsert_refunds self items (backfill_param sync_params) None)"

definition sync_credit_notes :: "engine \<Rightarrow> entity option \<Rightarrow> (world, Sync) M" where
  "sync_credit_notes self sync_params =
     fetch_and_upsert
       (stripe_list self (ResourceList CreditNote (with_created [(''limit'', JInt 100)] sync_params)))
       (\<lambda>credit_notes. upsert_credit_notes self credit_notes None None)"

definition sync_checkout_sessions :: "engine \<Rightarrow> entity option \<Rightarrow> (world, Sync) M" where
  "sync_checkout_sessions self sync_params =
     fetch_and_upsert
       (stripe_list self (ResourceList CheckoutSession (with_created [(''limit'', JInt 100)] sync_params)))
       (\<lambda>items. upsert_checkout_sessions self items (backfill_param sync_params) None)"

definition sync_features :: "engine \<Rightarrow> entity option \<Rightarrow> (world, Sync) M" where
  "sync_features self sync_params =
     bnd (lift (with_pagination [(''limit'', JInt 100)] sync_params)) (\<lambda>params.
     fetch_and_upsert
       (stripe_list self (ResourceList Feature params))
       (\<lambda>features. upsert_features self features None))"

definition sync_entitlements :: "engine \<Rightarrow> string \<Rightarrow> entity option \<Rightarrow> (world, Sync) M" where
  "sync_entitlements self customer_id sync_params =
     bnd (lift (with_pagination [(''customer'', JStr customer_id), (''limit'', JInt 100)]
                  sync_params)) (\<lambda>params.
     fetch_and_upsert
       (stripe_list self (ResourceList ActiveEntitlement params))
       (\<lambda>entitlements.
          upsert_active_entitlements self (JStr customer_id) entitlements None None))"

text \<open>
  \<^verbatim>\<open>sync_payment_methods\<close>: the ids of the stored customers that are not deleted, in
  chunks of ten; for each customer in turn, one run of \<^verbatim>\<open>_fetch_and_upsert\<close> over the
  payment methods of that customer; the counts of the runs are added up.
\<close>

definition sync_payment_methods_of ::
  "engine \<Rightarrow> entity option \<Rightarrow> jv \<Rightarrow> (world, Sync) M"
where
  "sync_payment_methods_of self sync_params customer_id =
     fetch_and_upsert
       (stripe_list self
          (ResourceList PaymentMethod [(''limit'', JInt 100), (''customer'', customer_id)]))
       (\<lambda>items. upsert_payment_methods self items (backfill_param sync_params) None)"

definition sync_payment_methods :: "engine \<Rightarrow> entity option \<Rightarrow> (world, Sync) M" where
  "sync_payment_methods self sync_params =
     bnd (query SelectCustomers) (\<lambda>result.
     bnd (lift (chunk_array (map (\<lambda>r. dict_get r ''id'') (result_rows result)) 10))
       (\<lambda>customer_id_chunks.
     bnd (map_m (\<lambda>customer_id_chunk.
            bnd (map_m (sync_payment_methods_of self sync_params) customer_id_chunk)
              (\<lambda>chunk_results. ok (sum_list (map synced chunk_results))))
            customer_id_chunks) (\<lambda>counts.
     ok \<lparr>synced = sum_list counts\<rparr>)))"

section \<open>Predicates on worlds and on computations\<close>

text \<open>
  \<open>preserves P m\<close>: the computation \<open>m\<close> leaves a world that satisfies \<open>P\<close> in a
  world that satisfies \<open>P\<close>, whether it returns or raises.
\<close>

definition preserves :: "('w \<Rightarrow> bool) \<Rightarrow> ('w, 'a) M \<Rightarrow> bool" where
  "preserves P m = (\<forall>w. P w \<longrightarrow> P (snd (m w)))"

named_theorems pres

definition same_table :: "string \<Rightarrow> table \<Rightarrow> world \<Rightarrow> bool" where
  "same_table t tb w = (table_of w t = tb)"

definition has_row :: "string \<Rightarrow> string \<Rightarrow> world \<Rightarrow> bool" where
  "has_row t k w = (map_of (table_of w t) k \<noteq> None)"


section \<open>Concrete engines, payloads and worlds\<close>

text \<open>
  An engine whose source API cannot be reached, a configuration with every option
  unset, and a store holding three live items of the subscription \<open>sub_P\<close>.
\<close>

definition offline_api :: stripe_api where
  "offline_api =
     \<lparr>retrieve = (\<lambda>r i. Inl (StripeError ''connection'')),
      auto_paging_iter = (\<lambda>q. ([], Some (StripeError ''connection''))),
      first_page = (\<lambda>q. Inl (StripeError ''connection''))\<rparr>"

definition plain_config :: config where
  "plain_config =
     \<lparr>auto_expand_lists = None, backfill_related_entities = None,
      revalidate_objects_via_stripe_api = None, logger = False\<rparr>"

definition demo_engine :: "config \<Rightarrow> stripe_api \<Rightarrow> engine" where
  "demo_engine cfg api =
     \<lparr>config = cfg, stripe = api, utcnow = 1000, fromtimestamp = (\<lambda>seconds. Inr seconds),
      render = (\<lambda>v. ''?''),
      charge_schema = [''id'', ''object'', ''customer'', ''invoice'', ''status''],
      checkout_session_schema = [''id'', ''object'', ''customer''],
      dispute_schema = [''id'', ''object'', ''charge''],
      feature_schema = [''id'', ''object'', ''name''],
      invoice_schema = [''id'', ''object'', ''customer'', ''subscription'', ''status''],
      payment_intent_schema = [''id'', ''object'', ''customer'', ''invoice'', ''status''],
      price_schema = [''id'', ''object'', ''product''],
      subscription_schema = [''id'', ''object'', ''customer'', ''status'']\<rparr>"

definition item_row :: "string \<Rightarrow> string \<Rightarrow> timestamp \<Rightarrow> row" where
  "item_row i sub t =
     \<lparr>cols = [(''id'', JStr i), (''subscription'', JStr sub), (''deleted'', JBool False)],
      last_synced_at = Some t\<rparr>"

definition items_world :: world where
  "items_world =
     \<lparr>tables = [(''subscription_items'',
                  [(''si_A'', item_row ''si_A'' ''sub_P'' 20),
                   (''si_B'', item_row ''si_B'' ''sub_P'' 20),
                   (''si_C'', item_row ''si_C'' ''sub_P'' 20)])],
      api_calls = [], upsert_calls = []\<rparr>"






text \<open>
  The event types that a branch of \<^verbatim>\<open>process_event\<close> names, in the order of the
  branches, and the id prefixes that a branch of \<^verbatim>\<open>sync_single_entity\<close> tests.
\<close>

definition handled_event_types :: "string list" where
  "handled_event_types =
     [''charge.captured'', ''charge.expired'', ''charge.failed'', ''charge.pending'',
      ''charge.refunded'', ''charge.succeeded'', ''charge.updated'', ''customer.deleted'',
      ''checkout.session.async_payment_failed'',
      ''checkout.session.async_payment_succeeded'', ''checkout.session.completed'',
      ''checkout.session.expired'', ''customer.created'', ''customer.updated'',
      ''customer.subscription.created'', ''customer.subscription.deleted'',
      ''customer.subscription.paused'', ''customer.subscription.pending_update_applied'',
      ''customer.subscription.pending_update_expired'',
      ''customer.subscription.trial_will_end'', ''customer.subscription.resumed'',
      ''customer.subscription.updated'', ''customer.tax_id.updated'',
      ''customer.tax_id.created'', ''customer.tax_id.deleted'', ''invoice.created'',
      ''invoice.deleted'', ''invoice.finalized'', ''invoice.finalization_failed'',
      ''invoice.paid'', ''invoice.payment_action_required'', ''invoice.payment_failed'',
      ''invoice.payment_succeeded'', ''invoice.upcoming'', ''invoice.sent'',
      ''invoice.voided'', ''invoice.marked_uncollectible'', ''invoice.updated'',
      ''product.created'', ''product.updated'', ''product.deleted'', ''price.created'',
      ''price.updated'', ''price.deleted'', ''plan.created'', ''plan.updated'',
      ''plan.deleted'', ''setup_intent.canceled'', ''setup_intent.created'',
      ''setup_intent.requires_action'', ''setup_intent.setup_failed'',
      ''setup_intent.succeeded'', ''subscription_schedule.aborted'',
      ''subscription_schedule.canceled'', ''subscription_schedule.completed'',
      ''subscription_schedule.created'', ''subscription_schedule.expiring'',
      ''subscription_schedule.released'', ''subscription_schedule.updated'',
      ''payment_method.attached'', ''payment_method.automatically_updated'',
      ''payment_method.detached'', ''payment_method.updated'', ''charge.dispute.created'',
      ''charge.dispute.funds_reinstated'', ''charge.dispute.funds_withdrawn'',
      ''charge.dispute.updated'', ''charge.dispute.closed'',
      ''payment_intent.amount_capturable_updated'', ''payment_intent.canceled'',
      ''payment_intent.created'', ''payment_intent.partially_funded'',
      ''payment_intent.payment_failed'', ''payment_intent.processing'',
      ''payment_intent.requires_action'', ''payment_intent.succeeded'',
      ''credit_note.created'', ''credit_note.updated'', ''credit_note.voided'',
      ''radar.early_fraud_warning.created'', ''radar.early_fraud_warning.updated'',
      ''refund.created'', ''refund.failed'', ''refund.updated'', ''charge.refund.updated'',
      ''review.closed'', ''review.opened'',
      ''entitlements.active_entitlement_summary.updated'', ''invoice_payment.paid'']"

definition recognized_prefixes :: "string list" where
  "recognized_prefixes =
     [''cus_'', ''in_'', ''price_'', ''prod_'', ''sub_'', ''seti_'', ''pm_'', ''dp_'', ''du_'',
      ''ch_'', ''pi_'', ''txi_'', ''cn_'', ''issfr_'', ''prv_'', ''re_'', ''inpay_'', ''feat_'',
      ''cs_'']"

text \<open>
  A source API that holds the given objects: \<^verbatim>\<open>retrieve\<close> returns the object stored
  for the resource and id, and raises "resource missing" for any other; listings are
  empty.
\<close>

definition catalog_api :: "((resource \<times> jv) \<times> entity) list \<Rightarrow> stripe_api" where
  "catalog_api objects =
     \<lparr>retrieve = (\<lambda>r i. case map_of objects (r, i) of
                            Some e \<Rightarrow> Inr e
                          | None \<Rightarrow> Inl (InvalidRequestError (Some ''resource_missing''))),
      auto_paging_iter = (\<lambda>q. ([], None)),
      first_page = (\<lambda>q. Inr [(''object'', JStr ''list''), (''data'', JList []),
                                (''has_more'', JBool False)])\<rparr>"

definition unhandled_event :: event where
  "unhandled_event =
     \<lparr>event_id = ''evt_1'', event_type = ''account.updated'', created = 50,
      data_object = [(''id'', JStr ''acct_1''), (''object'', JStr ''account'')]\<rparr>"

definition deleted_customer :: "string \<Rightarrow> entity" where
  "deleted_customer i = [(''id'', JStr i), (''object'', JStr ''customer''), (''deleted'', JBool True)]"



text \<open>
  A deployment that revalidates products, an update event of a product, and a store
  that holds the product.
\<close>

definition revalidate_products :: config where
  "revalidate_products = plain_config\<lparr>revalidate_objects_via_stripe_api := Some [''product'']\<rparr>"

definition product_event :: event where
  "product_event =
     \<lparr>event_id = ''evt_2'', event_type = ''product.updated'', created = 50,
      data_object = [(''id'', JStr ''prod_1''), (''object'', JStr ''product''),
                     (''name'', JStr ''Plus'')]\<rparr>"

definition products_world :: world where
  "products_world =
     \<lparr>tables = [(''products'',
                  [(''prod_1'', \<lparr>cols = [(''id'', JStr ''prod_1''), (''name'', JStr ''Basic'')],
                                 last_synced_at = Some 20\<rparr>)])],
      api_calls = [], upsert_calls = []\<rparr>"










text \<open>
  What \<^verbatim>\<open>_fetch_and_upsert\<close> does after its loop: the chunk still pending is
  upserted when it is not empty, and the count of the records is returned.
\<close>

definition finish :: "(entity list \<Rightarrow> ('w, 'a) M) \<Rightarrow> entity list \<times> nat \<Rightarrow> ('w, Sync) M" where
  "finish upsert = (\<lambda>(chunk, n).
     bnd (if length chunk > 0 then bnd (upsert chunk) (\<lambda>_. ok ()) else ok ()) (\<lambda>_.
     ok \<lparr>synced = n\<rparr>))"

text \<open>
  A run in batches over given records: their successive slices of \<open>chunk_size\<close>
  records are handed to the upsert in order, up to the first upsert that raises, and the
  count of the records is returned. \<open>one_run self run q upsert\<close>: whenever the listing
  \<open>q\<close> yields its records and ends, the computation \<open>run\<close> is the call of the listing
  followed by one run in batches over the records of the listing.
\<close>

definition batch_run :: "(entity list \<Rightarrow> ('w, 'a) M) \<Rightarrow> entity list \<Rightarrow> ('w, Sync) M" where
  "batch_run upsert items =
     bnd (for_each upsert (chunks items chunk_size)) (\<lambda>_. ok \<lparr>synced = length items\<rparr>)"

definition one_run ::
  "engine \<Rightarrow> (world, Sync) M \<Rightarrow> listing \<Rightarrow> (entity list \<Rightarrow> (world, 'a) M) \<Rightarrow> bool"
where
  "one_run self run q upsert =
     (\<forall>items w. auto_paging_iter (stripe self) q = (items, None) \<longrightarrow>
        run w = batch_run upsert items (w\<lparr>api_calls := api_calls w @ [Listing q]\<rparr>))"

text \<open>
  A source API that lists one payment method for every customer, and a store that holds
  three live customers.
\<close>

definition payment_method_of :: "jv \<Rightarrow> entity" where
  "payment_method_of customer =
     [(''id'', JStr (''pm_'' @ py_str (\<lambda>v. ''?'') customer)), (''object'', JStr ''payment_method''),
      (''customer'', customer)]"

definition wallet_api :: stripe_api where
  "wallet_api =
     (catalog_api [])\<lparr>auto_paging_iter :=
       (\<lambda>q. case q of
              ResourceList r params \<Rightarrow>
                if r = PaymentMethod then ([payment_method_of (dict_get params ''customer'')], None)
                else ([], None)
            | _ \<Rightarrow> ([], None))\<rparr>"

definition customer_row :: "string \<Rightarrow> row" where
  "customer_row i =
     \<lparr>cols = [(''id'', JStr i), (''object'', JStr ''customer'')], last_synced_at = None\<rparr>"

definition customers_world :: world where
  "customers_world =
     \<lparr>tables = [(''customers'',
                  [(''cus_1'', customer_row ''cus_1''), (''cus_2'', customer_row ''cus_2''),
                   (''cus_3'', customer_row ''cus_3'')])],
      api_calls = [], upsert_calls = []\<rparr>"

definition payment_methods_of :: "string \<Rightarrow> listing" where
  "payment_methods_of customer =
     ResourceList PaymentMethod [(''limit'', JInt 100), (''customer'', JStr customer)]"

(*THEOREMS*)

section \<open>Properties of the batching loop\<close>

lemma chunks_Nil [simp]: "chunks [] n = []"
  by (simp add: chunks.simps)

lemma chunks_full:
  "0 < n \<Longrightarrow> length c = n \<Longrightarrow> chunks (c @ xs) n = c # chunks xs n"
  by (subst chunks.simps) auto

lemma chunks_short:
  "0 < n \<Longrightarrow> length xs \<le> n \<Longrightarrow> chunks xs n = (if xs = [] then [] else [xs])"
  by (subst chunks.simps) auto

lemma chunks_unfold:
  "0 < n \<Longrightarrow> xs \<noteq> [] \<Longrightarrow> chunks xs n = take n xs # chunks (drop n xs) n"
  by (subst chunks.simps) simp

lemma concat_chunks: "0 < n \<Longrightarrow> concat (chunks xs n) = xs"
proof (induction xs n rule: chunks.induct)
  case (1 xs n)
  show ?case
  proof (cases "xs = []")
    case True
    then show ?thesis by simp
  next
    case False
    with 1 have "concat (chunks (drop n xs) n) = drop n xs" by simp
    with False "1.prems" show ?thesis by (simp add: chunks_unfold)
  qed
qed

lemma length_chunks: "0 < n \<Longrightarrow> length (chunks xs n) = (length xs + n - 1) div n"
proof (induction xs n rule: chunks.induct)
  case (1 xs n)
  show ?case
  proof (cases "xs = []")
    case True
    then show ?thesis using "1.prems" by simp
  next
    case False
    with 1 have IH: "length (chunks (drop n xs) n) = (length xs - n + n - 1) div n" by simp
    have big: "n \<le> length xs + n - 1" using False by (cases xs) auto
    have "(length xs + n - 1) div n = Suc ((length xs + n - 1 - n) div n)"
      using "1.prems" big by (simp add: le_div_geq)
    also have "(length xs + n - 1 - n) div n = (length xs - n + n - 1) div n"
    proof (cases "n \<le> length xs")
      case True
      then have "length xs + n - 1 - n = length xs - n + n - 1" by simp
      then show ?thesis by simp
    next
      case False
      then show ?thesis using "1.prems" by simp
    qed
    finally show ?thesis using False "1.prems" IH by (simp add: chunks_unfold)
  qed
qed

lemma butlast_chunks: "0 < n \<Longrightarrow> b \<in> set (butlast (chunks xs n)) \<Longrightarrow> length b = n"
proof (induction xs n rule: chunks.induct)
  case (1 xs n)
  show ?case
  proof (cases "xs = []")
    case True
    with "1.prems" show ?thesis by simp
  next
    case False
    have unf: "chunks xs n = take n xs # chunks (drop n xs) n"
      using False "1.prems" by (simp add: chunks_unfold)
    show ?thesis
    proof (cases "chunks (drop n xs) n = []")
      case True
      with unf "1.prems" show ?thesis by simp
    next
      case nonempty: False
      then have "drop n xs \<noteq> []" by auto
      then have "length (take n xs) = n" by simp
      with unf nonempty "1.prems" "1.IH" False show ?thesis by auto
    qed
  qed
qed

lemma chunks_bounds:
  "0 < n \<Longrightarrow> b \<in> set (chunks xs n) \<Longrightarrow> 0 < length b \<and> length b \<le> n"
proof (induction xs n rule: chunks.induct)
  case (1 xs n)
  show ?case
  proof (cases "xs = []")
    case True
    with "1.prems" show ?thesis by simp
  next
    case False
    have unf: "chunks xs n = take n xs # chunks (drop n xs) n"
      using False "1.prems" by (simp add: chunks_unfold)
    with "1.prems" "1.IH" False show ?thesis by auto
  qed
qed

section \<open>Rules for computations\<close>

lemma preserves_ok [pres]: "preserves P (ok x)"
  by (simp add: preserves_def ok_def)

lemma preserves_raise [pres]: "preserves P (raise e)"
  by (simp add: preserves_def raise_def)

lemma preserves_lift [pres]: "preserves P (lift r)"
  by (simp add: preserves_def lift_def)

lemma preserves_bnd [pres]:
  "preserves P m \<Longrightarrow> (\<And>x. preserves P (f x)) \<Longrightarrow> preserves P (bnd m f)"
  by (auto simp: preserves_def bnd_def split: prod.splits sum.splits; metis snd_conv)

lemma preserves_discard [pres]: "preserves P m \<Longrightarrow> preserves P (discard m)"
  unfolding discard_def by (intro pres)

lemma preserves_try_except [pres]:
  "preserves P m \<Longrightarrow> (\<And>e. preserves P (h e)) \<Longrightarrow> preserves P (try_except m h)"
  by (auto simp: preserves_def try_except_def split: prod.splits sum.splits; metis snd_conv)

lemma preserves_if [pres]:
  "preserves P a \<Longrightarrow> preserves P b \<Longrightarrow> preserves P (if c then a else b)"
  by simp

lemma preserves_case_option [pres]:
  "preserves P a \<Longrightarrow> (\<And>y. preserves P (b y)) \<Longrightarrow> preserves P (case x of None \<Rightarrow> a | Some y \<Rightarrow> b y)"
  by (cases x) auto

lemma preserves_case_prod [pres]:
  "(\<And>a b. preserves P (f a b)) \<Longrightarrow> preserves P (case p of (a, b) \<Rightarrow> f a b)"
  by (cases p) auto

lemma preserves_case_jv [pres]:
  "preserves P a \<Longrightarrow> (\<And>x. preserves P (b x)) \<Longrightarrow> (\<And>x. preserves P (c x)) \<Longrightarrow>
   (\<And>x. preserves P (d x)) \<Longrightarrow> (\<And>x. preserves P (e x)) \<Longrightarrow> (\<And>x. preserves P (f x)) \<Longrightarrow>
   preserves P (case v of JNone \<Rightarrow> a | JBool x \<Rightarrow> b x | JInt x \<Rightarrow> c x | JStr x \<Rightarrow> d x
                 | JList x \<Rightarrow> e x | JDict x \<Rightarrow> f x)"
  by (cases v) auto

lemma preserves_map_m [pres]: "(\<And>x. preserves P (f x)) \<Longrightarrow> preserves P (map_m f xs)"
  by (induction xs) (auto intro!: pres)

lemma preserves_for_each [pres]: "(\<And>x. preserves P (f x)) \<Longrightarrow> preserves P (for_each f xs)"
  by (induction xs) (auto intro!: pres)

lemma table_of_api_calls [simp]: "table_of (w\<lparr>api_calls := c\<rparr>) t = table_of w t"
  by (simp add: table_of_def)

lemma table_of_upsert_calls [simp]: "table_of (w\<lparr>upsert_calls := c\<rparr>) t = table_of w t"
  by (simp add: table_of_def)

lemma table_of_set_table:
  "table_of (set_table t' tb w) t = (if t = t' then tb else table_of w t)"
  by (simp add: table_of_def set_table_def update_conv')

lemma stripe_retrieve_same [pres]: "preserves (same_table t tb) (stripe_retrieve self r i)"
  by (simp add: preserves_def stripe_retrieve_def same_table_def)

lemma stripe_list_same [pres]: "preserves (same_table t tb) (stripe_list self q)"
  by (simp add: preserves_def stripe_list_def same_table_def)

lemma stripe_list_page_same [pres]: "preserves (same_table t tb) (stripe_list_page self q)"
  by (simp add: preserves_def stripe_list_page_def same_table_def)

lemma stripe_list_drained_same [pres]: "preserves (same_table t tb) (stripe_list_drained self q)"
  unfolding stripe_list_drained_def by (intro pres)

lemma find_missing_same [pres]: "preserves P (find_missing_entries t' ids)"
  by (simp add: preserves_def find_missing_entries_def)

lemma upsert_many_same [pres]:
  "t \<noteq> t' \<Longrightarrow> preserves (same_table t tb) (upsert_many_with_timestamp_protection es t' sch ts)"
  by (auto simp: preserves_def upsert_many_with_timestamp_protection_def same_table_def
        table_of_set_table split: prod.splits)

lemma query_same [pres]:
  "t \<noteq> ''subscription_items'' \<Longrightarrow> t \<noteq> ''active_entitlements'' \<Longrightarrow>
   preserves (same_table t tb) (query st)"
  by (auto simp: preserves_def query_def same_table_def table_of_set_table Let_def
        split: statement.splits)

lemma expand_entity_same [pres]: "preserves (same_table t tb) (expand_entity self es p l)"
  unfolding expand_entity_def by (intro pres)

lemma fetch_missing_same [pres]: "preserves (same_table t tb) (fetch_missing_entities self ids r)"
  unfolding fetch_missing_entities_def by (intro pres)

lemma upsert_customers_same [pres]:
  "t \<noteq> ''customers'' \<Longrightarrow> preserves (same_table t tb) (upsert_customers self cs ts)"
  unfolding upsert_customers_def Let_def by (intro pres) simp_all

lemma backfill_customers_same [pres]:
  "t \<noteq> ''customers'' \<Longrightarrow> preserves (same_table t tb) (backfill_customers self ids)"
  unfolding backfill_customers_def by (intro pres) simp_all

lemma upsert_subscription_items_same [pres]:
  "t \<noteq> ''subscription_items'' \<Longrightarrow>
   preserves (same_table t tb) (upsert_subscription_items self items ts)"
  unfolding upsert_subscription_items_def by (intro pres) simp_all

lemma mark_deleted_same [pres]:
  "t \<noteq> ''subscription_items'' \<Longrightarrow> t \<noteq> ''active_entitlements'' \<Longrightarrow>
   preserves (same_table t tb) (mark_deleted_subscription_items self sid ids)"
  unfolding mark_deleted_subscription_items_def Let_def by (intro pres) simp_all

lemma upsert_subscriptions_same [pres]:
  "t \<notin> {''customers'', ''subscriptions'', ''subscription_items'', ''active_entitlements''} \<Longrightarrow>
   preserves (same_table t tb) (upsert_subscriptions self subs bre ts)"
  unfolding upsert_subscriptions_def by (intro pres) simp_all

lemma backfill_subscriptions_same [pres]:
  "t \<notin> {''customers'', ''subscriptions'', ''subscription_items'', ''active_entitlements''} \<Longrightarrow>
   preserves (same_table t tb) (backfill_subscriptions self ids)"
  unfolding backfill_subscriptions_def by (intro pres) simp_all

lemma upsert_invoices_same [pres]:
  "t \<notin> {''customers'', ''subscriptions'', ''subscription_items'', ''active_entitlements'', ''invoices''} \<Longrightarrow>
   preserves (same_table t tb) (upsert_invoices self invs bre ts)"
  unfolding upsert_invoices_def by (intro pres) simp_all

lemma backfill_invoices_same [pres]:
  "t \<notin> {''customers'', ''subscriptions'', ''subscription_items'', ''active_entitlements'', ''invoices''} \<Longrightarrow>
   preserves (same_table t tb) (backfill_invoices self ids)"
  unfolding backfill_invoices_def by (intro pres) simp_all

section \<open>Properties of the upsert store\<close>








lemma bnd_Inr:
  "bnd m f w = (Inr y, w') \<Longrightarrow> \<exists>x w1. m w = (Inr x, w1) \<and> f x w1 = (Inr y, w')"
  by (auto simp: bnd_def split: prod.splits sum.splits)

lemma preservesD: "preserves P m \<Longrightarrow> P w \<Longrightarrow> m w = (r, w') \<Longrightarrow> P w'"
  by (auto simp: preserves_def; metis snd_conv)






section \<open>The timestamp guard\<close>






section \<open>Unknown event types and unknown id prefixes\<close>

text \<open>
  C6. For every event whose type is none of the types that a branch of
  \<^verbatim>\<open>process_event\<close> names, \<^verbatim>\<open>process_event\<close> raises "Unhandled webhook event"
  and leaves the world as it was: no write to the store, no call to the source API.
\<close>

theorem unhandled_event_raises:
  "event_type ev \<notin> set handled_event_types \<Longrightarrow>
   process_event self ev w = (Inl (Exception ''Unhandled webhook event''), w)"
  by (simp add: process_event_def handled_event_types_def raise_def Let_def)

theorem unhandled_event_raises_witness:
  "process_event (demo_engine plain_config offline_api) unhandled_event items_world =
     (Inl (Exception ''Unhandled webhook event''), items_world)"
  using unhandled_event_raises [of unhandled_event "demo_engine plain_config offline_api"
      items_world]
  by (simp add: handled_event_types_def unhandled_event_def)

text \<open>
  C10. For every id that starts with none of the recognized prefixes,
  \<^verbatim>\<open>sync_single_entity\<close> returns without raising and leaves the world as it was:
  nothing fetched, nothing written. For a \<open>cus_\<close> id whose retrieved customer is marked
  deleted, the only effect is the call that retrieved it: no upsert.
\<close>

theorem sync_single_entity_unknown_prefix:
  "(\<not> list_ex (\<lambda>p. prefix p stripe_id) recognized_prefixes \<longrightarrow>
      sync_single_entity self stripe_id w = (Inr (), w)) \<and>
   (prefix ''cus_'' stripe_id \<and>
    retrieve (stripe self) Customer (JStr stripe_id) = Inr customer \<and>
    truthy (dict_get customer ''deleted'') \<longrightarrow>
      sync_single_entity self stripe_id w =
        (Inr (), w\<lparr>api_calls := api_calls w @ [Retrieve Customer (JStr stripe_id)]\<rparr>))"
  by (simp add: sync_single_entity_def recognized_prefixes_def ok_def bnd_def
        stripe_retrieve_def)

theorem sync_single_entity_unknown_prefix_witness:
  "sync_single_entity (demo_engine plain_config offline_api) ''acct_1'' items_world =
     (Inr (), items_world) \<and>
   sync_single_entity
     (demo_engine plain_config
        (catalog_api [((Customer, JStr ''cus_9''), deleted_customer ''cus_9'')]))
     ''cus_9'' items_world =
     (Inr (), items_world\<lparr>api_calls := [Retrieve Customer (JStr ''cus_9'')]\<rparr>)"
  using
    sync_single_entity_unknown_prefix [where stripe_id = "''acct_1''"
      and self = "demo_engine plain_config offline_api" and w = items_world
      and customer = "[]"]
    sync_single_entity_unknown_prefix [where stripe_id = "''cus_9''"
      and self = "demo_engine plain_config
         (catalog_api [((Customer, JStr ''cus_9''), deleted_customer ''cus_9'')])"
      and customer = "deleted_customer ''cus_9''" and w = items_world]
  by (simp add: recognized_prefixes_def demo_engine_def catalog_api_def deleted_customer_def
        dict_get_def items_world_def)

section \<open>Deletion on a refetch that finds nothing\<close>


text \<open>
  C5. For a \<open>product.created\<close> or \<open>product.updated\<close> event whose embedded product
  is refetched (it has an id and the revalidation list names its object type): when the
  source API answers "resource missing", \<^verbatim>\<open>process_event\<close> returns normally, the row
  of the product is removed from the products table by the id of the event's object and
  nothing else of the store changes; any other error of the source API is raised to the
  caller.
\<close>

theorem product_refetch_not_found:
  assumes "event_type ev = ''product.created'' \<or> event_type ev = ''product.updated''"
      and "dict_get (data_object ev) ''id'' = JStr k" and "k \<noteq> []"
      and "should_refetch_entity self (data_object ev)"
      and "retrieve (stripe self) Product (JStr k) = Inl err"
  shows
    "(err = InvalidRequestError (Some ''resource_missing'') \<longrightarrow>
        process_event self ev w =
          (Inr (), set_table ''products'' (AList.delete k (table_of w ''products''))
                     (w\<lparr>api_calls := api_calls w @ [Retrieve Product (JStr k)]\<rparr>)) \<and>
        map_of (table_of (snd (process_event self ev w)) ''products'') k = None) \<and>
     (err \<noteq> InvalidRequestError (Some ''resource_missing'') \<longrightarrow>
        process_event self ev w =
          (Inl err, w\<lparr>api_calls := api_calls w @ [Retrieve Product (JStr k)]\<rparr>))"
proof -
  have item: "dict_item (data_object ev) ''id'' = Inr (JStr k)"
    using assms(2) by (simp add: dict_get_def dict_item_def split: option.splits)
  have fetch: "webhook_upsert self ev Product None (upsert_products self) w =
                 (Inl err, w\<lparr>api_calls := api_calls w @ [Retrieve Product (JStr k)]\<rparr>)"
    using assms(2-5)
    by (simp add: webhook_upsert_def fetch_or_use_webhook_data_def bnd_def stripe_retrieve_def)
  have branch: "process_event self ev =
                  try_except (webhook_upsert self ev Product None (upsert_products self))
                    (except_resource_missing
                       (bnd (lift (dict_item (data_object ev) ''id'')) (\<lambda>i.
                        discard (delete_product self i))))"
    using assms(1) by (rule disjE) (simp_all add: process_event_def Let_def)
  have run: "process_event self ev w =
               except_resource_missing
                 (bnd (lift (dict_item (data_object ev) ''id'')) (\<lambda>i.
                  discard (delete_product self i))) err
                 (w\<lparr>api_calls := api_calls w @ [Retrieve Product (JStr k)]\<rparr>)"
    unfolding branch using fetch by (simp add: try_except_def)
  show ?thesis
    unfolding run
    by (cases err)
       (auto simp: except_resource_missing_def item bnd_def lift_def discard_def ok_def raise_def
          delete_product_def delete_def table_of_set_table delete_conv')
qed


theorem product_refetch_not_found_witness:
  "process_event (demo_engine revalidate_products (catalog_api [])) product_event products_world =
     (Inr (), \<lparr>tables = [(''products'', [])],
               api_calls = [Retrieve Product (JStr ''prod_1'')], upsert_calls = []\<rparr>) \<and>
   process_event (demo_engine revalidate_products offline_api) product_event products_world =
     (Inl (StripeError ''connection''),
      products_world\<lparr>api_calls := [Retrieve Product (JStr ''prod_1'')]\<rparr>)"
  using
    product_refetch_not_found [where ev = product_event and k = "''prod_1''"
      and self = "demo_engine revalidate_products (catalog_api [])"
      and err = "InvalidRequestError (Some ''resource_missing'')" and w = products_world]
    product_refetch_not_found [where ev = product_event and k = "''prod_1''"
      and self = "demo_engine revalidate_products offline_api"
      and err = "StripeError ''connection''" and w = products_world]
  by (simp add: product_event_def dict_get_def should_refetch_entity_def demo_engine_def
        revalidate_products_def plain_config_def catalog_api_def offline_api_def
        products_world_def set_table_def table_of_def)

section \<open>The trust decision\<close>





section \<open>Backfill runs of the entity kinds\<close>

lemma bnd_assoc: "bnd (bnd m f) g = bnd m (\<lambda>x. bnd (f x) g)"
  by (rule ext) (simp add: bnd_def split: prod.splits sum.splits)

lemma bnd_ok_left: "bnd (ok x) f = f x"
  by (rule ext) (simp add: bnd_def ok_def)

lemma bnd_ok_right: "bnd m ok = m"
  by (rule ext) (simp add: bnd_def ok_def split: prod.splits sum.splits)

lemma bnd_cong_right: "(\<And>x. f x = g x) \<Longrightarrow> bnd m f = bnd m g"
  by (rule ext) (simp add: bnd_def split: prod.splits sum.splits)

lemma fetch_loop_flush:
  "chunk_size \<le> length (chunk @ [item]) \<Longrightarrow>
   fetch_loop upsert (item # rest) chunk n =
     bnd (upsert (chunk @ [item])) (\<lambda>_. fetch_loop upsert rest [] (n + 1))"
  by (rule ext) (simp add: bnd_def Let_def split: prod.splits sum.splits)

lemma fetch_loop_keep:
  "\<not> chunk_size \<le> length (chunk @ [item]) \<Longrightarrow>
   fetch_loop upsert (item # rest) chunk n = fetch_loop upsert rest (chunk @ [item]) (n + 1)"
  by (rule ext) (simp add: Let_def)

lemma fetch_loop_Nil: "fetch_loop upsert [] chunk n = ok (chunk, n)"
  by (rule ext) (simp add: ok_def)

lemma for_each_one: "for_each f [x] = bnd (f x) (\<lambda>_. ok ())"
  by simp

lemma fetch_loop_batches:
  "length chunk < chunk_size \<Longrightarrow>
   bnd (fetch_loop upsert items chunk n) (finish upsert) =
     bnd (for_each upsert (chunks (chunk @ items) chunk_size))
       (\<lambda>_. ok \<lparr>synced = n + length items\<rparr>)"
proof (induction items arbitrary: chunk n)
  case Nil
  have pos: "0 < chunk_size" by (simp add: chunk_size_def)
  show ?case
    using Nil pos
    by (simp add: fetch_loop_Nil bnd_ok_left finish_def chunks_short)
next
  case (Cons item rest)
  have pos: "0 < chunk_size" by (simp add: chunk_size_def)
  show ?case
  proof (cases "chunk_size \<le> length (chunk @ [item])")
    case True
    with Cons.prems have len: "length (chunk @ [item]) = chunk_size" by simp
    have unf: "chunks (chunk @ item # rest) chunk_size = (chunk @ [item]) # chunks rest chunk_size"
      using chunks_full [OF pos len, of rest] by simp
    have IH: "bnd (fetch_loop upsert rest [] (Suc n)) (finish upsert) =
              bnd (for_each upsert (chunks rest chunk_size))
                (\<lambda>_. ok \<lparr>synced = Suc (n + length rest)\<rparr>)"
      using Cons.IH [of "[]" "Suc n"] pos by simp
    show ?thesis
      by (simp add: fetch_loop_flush [OF True] bnd_assoc IH unf)
  next
    case False
    then have short: "length (chunk @ [item]) < chunk_size" by simp
    from Cons.IH [OF short, of "n + 1"] show ?thesis
      by (simp add: fetch_loop_keep [OF False])
  qed
qed

lemma fetch_and_upsert_listing:
  assumes "auto_paging_iter (stripe self) q = (items, None)"
  shows "fetch_and_upsert (stripe_list self q) upsert w =
           bnd (for_each upsert (chunks items chunk_size)) (\<lambda>_. ok \<lparr>synced = length items\<rparr>)
             (w\<lparr>api_calls := api_calls w @ [Listing q]\<rparr>)"
proof -
  have short: "length ([]::entity list) < chunk_size" by (simp add: chunk_size_def)
  have "fetch_and_upsert (stripe_list self q) upsert w =
          bnd (fetch_loop upsert items [] 0) (finish upsert)
            (w\<lparr>api_calls := api_calls w @ [Listing q]\<rparr>)"
    using assms
    by (simp add: fetch_and_upsert_def stripe_list_def bnd_def finish_def
          split: prod.splits sum.splits)
  then show ?thesis
    using fetch_loop_batches [OF short, of upsert items 0] by simp
qed

lemma map_m_append:
  "map_m f (xs @ ys) = bnd (map_m f xs) (\<lambda>a. bnd (map_m f ys) (\<lambda>b. ok (a @ b)))"
  by (induction xs) (simp_all add: bnd_ok_left bnd_assoc bnd_ok_right)

lemma map_m_chunks:
  fixes f :: "'x \<Rightarrow> ('w, 'y) M" and g :: "'y \<Rightarrow> nat" and K :: "nat \<Rightarrow> ('w, 'r) M"
  shows "0 < n \<Longrightarrow>
   bnd (map_m (\<lambda>c. bnd (map_m f c) (\<lambda>rs. ok (sum_list (map g rs)))) (chunks xs n))
     (\<lambda>counts. K (sum_list counts)) =
   bnd (map_m f xs) (\<lambda>rs. K (sum_list (map g rs)))"
proof (induction xs n arbitrary: K rule: chunks.induct)
  case (1 xs n)
  show ?case
  proof (cases "xs = []")
    case True
    then show ?thesis by (simp add: bnd_ok_left)
  next
    case False
    have c: "\<not> (xs = [] \<or> n = 0)" using False "1.prems" by simp
    have IH: "bnd (map_m (\<lambda>c. bnd (map_m f c) (\<lambda>rs. ok (sum_list (map g rs))))
                     (chunks (drop n xs) n)) (\<lambda>counts. K' (sum_list counts)) =
              bnd (map_m f (drop n xs)) (\<lambda>rs. K' (sum_list (map g rs)))" for K' :: "nat \<Rightarrow> ('w, 'r) M"
      using "1.IH" [OF c "1.prems", where K = K'] .
    have split: "map_m f xs =
                   bnd (map_m f (take n xs)) (\<lambda>a. bnd (map_m f (drop n xs)) (\<lambda>b. ok (a @ b)))"
      using map_m_append [of f "take n xs" "drop n xs"] by simp
    show ?thesis
      apply (subst split)
      apply (simp add: chunks_unfold [OF "1.prems" False] bnd_assoc bnd_ok_left)
      apply (rule bnd_cong_right)
      apply (simp add: IH [where K' = "\<lambda>s. K (_ + s)"])
      done
  qed
qed


lemma one_run_fetch_and_upsert:
  "one_run self (fetch_and_upsert (stripe_list self q) upsert) q upsert"
  by (simp add: one_run_def batch_run_def fetch_and_upsert_listing)

lemma fetch_and_upsert_fetch_ok:
  "fetch_and_upsert (fetch_ok items) upsert = batch_run upsert items"
proof -
  have short: "length ([]::entity list) < chunk_size" by (simp add: chunk_size_def)
  have "fetch_and_upsert (fetch_ok items) upsert =
          bnd (fetch_loop upsert items [] 0) (finish upsert)"
    by (simp add: fetch_and_upsert_def fetch_ok_def bnd_ok_left finish_def)
  then show ?thesis
    using fetch_loop_batches [OF short, of upsert items 0] by (simp add: batch_run_def)
qed

lemma for_each_record_batch:
  "for_each record_batch bs calls = (Inr (), calls @ bs)"
  by (induction bs arbitrary: calls) (simp_all add: ok_def bnd_def record_batch_def)

lemma batch_run_record_batch:
  "batch_run record_batch items calls = (Inr \<lparr>synced = length items\<rparr>, calls @ chunks items chunk_size)"
  by (simp add: batch_run_def bnd_def for_each_record_batch ok_def)

lemma lift_Inr: "lift (Inr x) = ok x"
  by (rule ext) (simp add: lift_def ok_def)

lemma sync_features_one_run:
  "with_pagination [(''limit'', JInt 100)] sync_params = Inr params \<Longrightarrow>
   one_run self (sync_features self sync_params) (ResourceList Feature params)
     (\<lambda>features. upsert_features self features None)"
  by (simp add: sync_features_def lift_Inr bnd_ok_left one_run_fetch_and_upsert)

lemma sync_entitlements_one_run:
  "with_pagination [(''customer'', JStr customer_id), (''limit'', JInt 100)] sync_params = Inr params \<Longrightarrow>
   one_run self (sync_entitlements self customer_id sync_params) (ResourceList ActiveEntitlement params)
     (\<lambda>entitlements. upsert_active_entitlements self (JStr customer_id) entitlements None None)"
  by (simp add: sync_entitlements_def lift_Inr bnd_ok_left one_run_fetch_and_upsert)

lemma sync_payment_methods_runs:
  "sync_payment_methods self sync_params w =
     bnd (map_m (sync_payment_methods_of self sync_params)
            (map JStr (select_customers (table_of w ''customers''))))
       (\<lambda>results. ok \<lparr>synced = sum_list (map synced results)\<rparr>) w"
proof -
  have ids: "map (\<lambda>r. dict_get r ''id'') (map (\<lambda>k. [(''id'', JStr k)]) ks) = map JStr ks" for ks
    by (simp add: dict_get_def)
  have "sync_payment_methods self sync_params w =
          bnd (map_m (\<lambda>customer_id_chunk.
                 bnd (map_m (sync_payment_methods_of self sync_params) customer_id_chunk)
                   (\<lambda>chunk_results. ok (sum_list (map synced chunk_results))))
                 (chunks (map JStr (select_customers (table_of w ''customers''))) 10))
            (\<lambda>counts. ok \<lparr>synced = sum_list counts\<rparr>) w"
    by (simp add: sync_payment_methods_def query_def bnd_def Let_def chunk_array_def lift_def
          dict_get_def comp_def)
  then show ?thesis
    by (simp add: map_m_chunks [where K = "\<lambda>s. ok \<lparr>synced = s\<rparr>"])
qed

lemma sync_products_one_run:
  "one_run self (sync_products self sync_params)
     (ResourceList Product (with_created [(''limit'', JInt 100)] sync_params))
     (\<lambda>products. upsert_products self products None)"
  by (simp add: sync_products_def one_run_fetch_and_upsert)

lemma sync_prices_one_run:
  "one_run self (sync_prices self sync_params)
     (ResourceList Price (with_created [(''limit'', JInt 100)] sync_params))
     (\<lambda>prices. upsert_prices self prices (backfill_param sync_params) None)"
  by (simp add: sync_prices_def one_run_fetch_and_upsert)

lemma sync_plans_one_run:
  "one_run self (sync_plans self sync_params)
     (ResourceList Plan (with_created [(''limit'', JInt 100)] sync_params))
     (\<lambda>plans. upsert_plans self plans (backfill_param sync_params) None)"
  by (simp add: sync_plans_def one_run_fetch_and_upsert)

lemma sync_customers_one_run:
  "one_run self (sync_customers self sync_params)
     (ResourceList Customer (with_created [(''limit'', JInt 100)] sync_params))
     (\<lambda>items. upsert_customers self items None)"
  by (simp add: sync_customers_def one_run_fetch_and_upsert)

lemma sync_subscriptions_one_run:
  "one_run self (sync_subscriptions self sync_params)
     (ResourceList Subscription (with_created [(''status'', JStr ''all''), (''limit'', JInt 100)] sync_params))
     (\<lambda>items. upsert_subscriptions self items (backfill_param sync_params) None)"
  by (simp add: sync_subscriptions_def one_run_fetch_and_upsert)

lemma sync_subscription_schedules_one_run:
  "one_run self (sync_subscription_schedules self sync_params)
     (ResourceList SubscriptionSchedule (with_created [(''limit'', JInt 100)] sync_params))
     (\<lambda>items. upsert_subscription_schedules self items (backfill_param sync_params) None)"
  by (simp add: sync_subscription_schedules_def one_run_fetch_and_upsert)

lemma sync_invoices_one_run:
  "one_run self (sync_invoices self sync_params)
     (ResourceList Invoice (with_created [(''limit'', JInt 100)] sync_params))
     (\<lambda>items. upsert_invoices self items (backfill_param sync_params) None)"
  by (simp add: sync_invoices_def one_run_fetch_and_upsert)

lemma sync_charges_one_run:
  "one_run self (sync_charges self sync_params)
     (ResourceList Charge (with_created [(''limit'', JInt 100)] sync_params))
     (\<lambda>items. upsert_charges self items (backfill_param sync_params) None)"
  by (simp add: sync_charges_def one_run_fetch_and_upsert)

lemma sync_setup_intents_one_run:
  "one_run self (sync_setup_intents self sync_params)
     (ResourceList SetupIntent (with_created [(''limit'', JInt 100)] sync_params))
     (\<lambda>items. upsert_setup_intents self items (backfill_param sync_params) None)"
  by (simp add: sync_setup_intents_def one_run_fetch_and_upsert)

lemma sync_payment_intents_one_run:
  "one_run self (sync_payment_intents self sync_params)
     (ResourceList PaymentIntent (with_created [(''limit'', JInt 100)] sync_params))
     (\<lambda>items. upsert_payment_intents self items (backfill_param sync_params) None)"
  by (simp add: sync_payment_intents_def one_run_fetch_and_upsert)

lemma sync_tax_ids_one_run:
  "one_run self (sync_tax_ids self sync_params)
     (ResourceList TaxId [(''limit'', JInt 100)])
     (\<lambda>items. upsert_tax_ids self items (backfill_param sync_params) None)"
  by (simp add: sync_tax_ids_def one_run_fetch_and_upsert)

lemma sync_disputes_one_run:
  "one_run self (sync_disputes self sync_params)
     (ResourceList Dispute (with_created [(''limit'', JInt 100)] sync_params))
     (\<lambda>items. upsert_disputes self items (backfill_param sync_params) None)"
  by (simp add: sync_disputes_def one_run_fetch_and_upsert)

lemma sync_early_fraud_warnings_one_run:
  "one_run self (sync_early_fraud_warnings self sync_params)
     (ResourceList EarlyFraudWarning (with_created [(''limit'', JInt 100)] sync_params))
     (\<lambda>items. upsert_early_fraud_warning self items (backfill_param sync_params) None)"
  by (simp add: sync_early_fraud_warnings_def one_run_fetch_and_upsert)

lemma sync_refunds_one_run:
  "one_run self (sync_refunds self sync_params)
     (ResourceList Refund (with_created [(''limit'', JInt 100)] sync_params))
     (\<lambda>items. upsert_refunds self items (backfill_param sync_params) None)"
  by (simp add: sync_refunds_def one_run_fetch_and_upsert)

lemma sync_credit_notes_one_run:
  "one_run self (sync_credit_notes self sync_params)
     (ResourceList CreditNote (with_created [(''limit'', JInt 100)] sync_params))
     (\<lambda>credit_notes. upsert_credit_notes self credit_notes None None)"
  by (simp add: sync_credit_notes_def one_run_fetch_and_upsert)

lemma sync_checkout_sessions_one_run:
  "one_run self (sync_checkout_sessions self sync_params)
     (ResourceList CheckoutSession (with_created [(''limit'', JInt 100)] sync_params))
     (\<lambda>items. upsert_checkout_sessions self items (backfill_param sync_params) None)"
  by (simp add: sync_checkout_sessions_def one_run_fetch_and_upsert)

text \<open>
  C9. A run of \<^verbatim>\<open>_fetch_and_upsert\<close> over a listing that yields \<open>N\<close> records hands
  the upsert the successive slices of 250 records, in order: \<open>ceil(N/250)\<close> batches,
  every one but the last of exactly 250 records, none empty or longer than 250, together
  the \<open>N\<close> records, and it returns \<open>{synced: N}\<close> when no upsert raises. Every
  \<^verbatim>\<open>sync_<kind>\<close> other than that of the payment methods is one such run, over the
  listing of the kind and with the upsert of the kind, which is given no sync timestamp.
  \<^verbatim>\<open>sync_payment_methods\<close> is one such run for each stored customer that is not
  deleted, in the order of the stored customers, and it returns the sum of the counts:
  its batches never span two customers.
\<close>

theorem sync_kind_batches:
  "one_run self (sync_products self sync_params)
     (ResourceList Product (with_created [(''limit'', JInt 100)] sync_params))
     (\<lambda>products. upsert_products self products None) \<and>
   one_run self (sync_prices self sync_params)
     (ResourceList Price (with_created [(''limit'', JInt 100)] sync_params))
     (\<lambda>prices. upsert_prices self prices (backfill_param sync_params) None) \<and>
   one_run self (sync_plans self sync_params)
     (ResourceList Plan (with_created [(''limit'', JInt 100)] sync_params))
     (\<lambda>plans. upsert_plans self plans (backfill_param sync_params) None) \<and>
   one_run self (sync_customers self sync_params)
     (ResourceList Customer (with_created [(''limit'', JInt 100)] sync_params))
     (\<lambda>items. upsert_customers self items None) \<and>
   one_run self (sync_subscriptions self sync_params)
     (ResourceList Subscription (with_created [(''status'', JStr ''all''), (''limit'', JInt 100)] sync_params))
     (\<lambda>items. upsert_subscriptions self items (backfill_param sync_params) None) \<and>
   one_run self (sync_subscription_schedules self sync_params)
     (ResourceList SubscriptionSchedule (with_created [(''limit'', JInt 100)] sync_params))
     (\<lambda>items. upsert_subscription_schedules self items (backfill_param sync_params) None) \<and>
   one_run self (sync_invoices self sync_params)
     (ResourceList Invoice (with_created [(''limit'', JInt 100)] sync_params))
     (\<lambda>items. upsert_invoices self items (backfill_param sync_params) None) \<and>
   one_run self (sync_charges self sync_params)
     (ResourceList Charge (with_created [(''limit'', JInt 100)] sync_params))
     (\<lambda>items. upsert_charges self items (backfill_param sync_params) None) \<and>
   one_run self (sync_setup_intents self sync_params)
     (ResourceList SetupIntent (with_created [(''limit'', JInt 100)] sync_params))
     (\<lambda>items. upsert_setup_intents self items (backfill_param sync_params) None) \<and>
   one_run self (sync_payment_intents self sync_params)
     (ResourceList PaymentIntent (with_created [(''limit'', JInt 100)] sync_params))
     (\<lambda>items. upsert_payment_intents self items (backfill_param sync_params) None) \<and>
   one_run self (sync_tax_ids self sync_params)
     (ResourceList TaxId [(''limit'', JInt 100)])
     (\<lambda>items. upsert_tax_ids self items (backfill_param sync_params) None) \<and>
   one_run self (sync_disputes self sync_params)
     (ResourceList Dispute (with_created [(''limit'', JInt 100)] sync_params))
     (\<lambda>items. upsert_disputes self items (backfill_param sync_params) None) \<and>
   one_run self (sync_early_fraud_warnings self sync_params)
     (ResourceList EarlyFraudWarning (with_created [(''limit'', JInt 100)] sync_params))
     (\<lambda>items. upsert_early_fraud_warning self items (backfill_param sync_params) None) \<and>
   one_run self (sync_refunds self sync_params)
     (ResourceList Refund (with_created [(''limit'', JInt 100)] sync_params))
     (\<lambda>items. upsert_refunds self items (backfill_param sync_params) None) \<and>
   one_run self (sync_credit_notes self sync_params)
     (ResourceList CreditNote (with_created [(''limit'', JInt 100)] sync_params))
     (\<lambda>credit_notes. upsert_credit_notes self credit_notes None None) \<and>
   one_run self (sync_checkout_sessions self sync_params)
     (ResourceList CheckoutSession (with_created [(''limit'', JInt 100)] sync_params))
     (\<lambda>items. upsert_checkout_sessions self items (backfill_param sync_params) None) \<and>
   (\<forall>params. with_pagination [(''limit'', JInt 100)] sync_params = Inr params \<longrightarrow>
      one_run self (sync_features self sync_params) (ResourceList Feature params)
        (\<lambda>features. upsert_features self features None)) \<and>
   (\<forall>params.
      with_pagination [(''customer'', JStr customer_id), (''limit'', JInt 100)] sync_params =
        Inr params \<longrightarrow>
      one_run self (sync_entitlements self customer_id sync_params)
        (ResourceList ActiveEntitlement params)
        (\<lambda>entitlements.
           upsert_active_entitlements self (JStr customer_id) entitlements None None)) \<and>
   sync_payment_methods self sync_params w =
     bnd (map_m (sync_payment_methods_of self sync_params)
            (map JStr (select_customers (table_of w ''customers''))))
       (\<lambda>results. ok \<lparr>synced = sum_list (map synced results)\<rparr>) w \<and>
   one_run self (sync_payment_methods_of self sync_params customer)
     (ResourceList PaymentMethod [(''limit'', JInt 100), (''customer'', customer)])
     (\<lambda>items. upsert_payment_methods self items (backfill_param sync_params) None) \<and>
   fetch_and_upsert (fetch_ok items) upsert = batch_run upsert items \<and>
   batch_run record_batch items calls =
     (Inr \<lparr>synced = length items\<rparr>, calls @ chunks items chunk_size) \<and>
   length (chunks items chunk_size) = (length items + 249) div 250 \<and>
   (\<forall>b \<in> set (butlast (chunks items chunk_size)). length b = 250) \<and>
   (\<forall>b \<in> set (chunks items chunk_size). 0 < length b \<and> length b \<le> 250) \<and>
   concat (chunks items chunk_size) = items"
proof -
  have pos: "0 < chunk_size" by (simp add: chunk_size_def)
  have count: "length (chunks items chunk_size) = (length items + 249) div 250"
    using length_chunks [OF pos, of items] by (simp add: chunk_size_def)
  have full: "\<forall>b \<in> set (butlast (chunks items chunk_size)). length b = 250"
    using butlast_chunks [OF pos, of _ items] by (simp add: chunk_size_def)
  have bounds: "\<forall>b \<in> set (chunks items chunk_size). 0 < length b \<and> length b \<le> 250"
    using chunks_bounds [OF pos, of _ items] by (simp add: chunk_size_def)
  have of_customer:
    "one_run self (sync_payment_methods_of self sync_params customer)
       (ResourceList PaymentMethod [(''limit'', JInt 100), (''customer'', customer)])
       (\<lambda>items. upsert_payment_methods self items (backfill_param sync_params) None)"
    by (simp add: sync_payment_methods_of_def one_run_fetch_and_upsert)
  show ?thesis
    using count full bounds of_customer sync_payment_methods_runs [of self sync_params w]
      concat_chunks [OF pos, of items]
    by (simp add: sync_products_one_run sync_prices_one_run sync_plans_one_run sync_customers_one_run sync_subscriptions_one_run sync_subscription_schedules_one_run sync_invoices_one_run sync_charges_one_run sync_setup_intents_one_run sync_payment_intents_one_run sync_tax_ids_one_run sync_disputes_one_run sync_early_fraud_warnings_one_run sync_refunds_one_run sync_credit_notes_one_run sync_checkout_sessions_one_run sync_features_one_run sync_entitlements_one_run
          fetch_and_upsert_fetch_ok batch_run_record_batch)
qed

text \<open>
  The runs of the specification: 551 records go out as batches of 250, 250 and 51, and
  the payment methods of one customer as one batch.
\<close>

theorem sync_kind_batches_witness:
  "auto_paging_iter (stripe (demo_engine plain_config wallet_api)) (payment_methods_of ''cus_1'') =
     ([payment_method_of (JStr ''cus_1'')], None) \<and>
   sync_payment_methods_of (demo_engine plain_config wallet_api) None (JStr ''cus_1'')
       customers_world =
     batch_run (\<lambda>items. upsert_payment_methods (demo_engine plain_config wallet_api) items
                           (backfill_param None) None)
       [payment_method_of (JStr ''cus_1'')]
       (customers_world\<lparr>api_calls := [Listing (payment_methods_of ''cus_1'')]\<rparr>) \<and>
   fetch_and_upsert (fetch_ok (replicate 551 [(''object'', JStr ''charge'')])) record_batch [] =
     (Inr \<lparr>synced = 551\<rparr>,
      [replicate 250 [(''object'', JStr ''charge'')],
       replicate 250 [(''object'', JStr ''charge'')],
       replicate 51 [(''object'', JStr ''charge'')]]) \<and>
   length (chunks (replicate 551 [(''object'', JStr ''charge'')]) chunk_size) = 3"
proof -
  note batches =
    sync_kind_batches [where self = "demo_engine plain_config wallet_api"
      and sync_params = None and customer = "JStr ''cus_1''"
      and items = "replicate 551 [(''object'', JStr ''charge'')]"
      and upsert = record_batch and calls = "[]" and w = customers_world
      and customer_id = "''cus_1''"]
  have listed:
    "auto_paging_iter (stripe (demo_engine plain_config wallet_api)) (payment_methods_of ''cus_1'') =
       ([payment_method_of (JStr ''cus_1'')], None)"
    by (simp add: demo_engine_def wallet_api_def catalog_api_def payment_methods_of_def
          dict_get_def)
  have "one_run (demo_engine plain_config wallet_api)
          (sync_payment_methods_of (demo_engine plain_config wallet_api) None (JStr ''cus_1''))
          (payment_methods_of ''cus_1'')
          (\<lambda>items. upsert_payment_methods (demo_engine plain_config wallet_api) items
                      (backfill_param None) None)"
    using batches by (simp add: payment_methods_of_def)
  with listed have run:
    "sync_payment_methods_of (demo_engine plain_config wallet_api) None (JStr ''cus_1'')
         customers_world =
       batch_run (\<lambda>items. upsert_payment_methods (demo_engine plain_config wallet_api) items
                             (backfill_param None) None)
         [payment_method_of (JStr ''cus_1'')]
         (customers_world\<lparr>api_calls := [Listing (payment_methods_of ''cus_1'')]\<rparr>)"
    by (simp add: one_run_def customers_world_def)
  have slices:
    "chunks (replicate 551 [(''object'', JStr ''charge'')]) chunk_size =
       [replicate 250 [(''object'', JStr ''charge'')],
        replicate 250 [(''object'', JStr ''charge'')],
        replicate 51 [(''object'', JStr ''charge'')]]"
    by (simp add: chunks_unfold chunk_size_def)
  have "fetch_and_upsert (fetch_ok (replicate 551 [(''object'', JStr ''charge'')]))
          record_batch [] =
        (Inr \<lparr>synced = 551\<rparr>, chunks (replicate 551 [(''object'', JStr ''charge'')]) chunk_size)"
    using batches by simp
  with listed run slices show ?thesis by simp
qed

text \<open>
  Three customers with one payment method each: a backfill of the payment methods
  enumerates three records and issues three upserts of one record, where
  \<open>ceil(3/250)\<close> is one.
\<close>

lemma upsert_many_effect:
  "\<not> list_ex (\<lambda>e. primary_key e = None) entries \<Longrightarrow>
   \<exists>n tb. upsert_many_with_timestamp_protection entries t schema ts w =
     (Inr n, set_table t tb (w\<lparr>upsert_calls := upsert_calls w @ [(t, length entries)]\<rparr>))"
  by (auto simp: upsert_many_with_timestamp_protection_def split: prod.splits)

lemma wallet_run:
  "\<exists>tb. sync_payment_methods_of (demo_engine plain_config wallet_api) None (JStr c) w =
     (Inr \<lparr>synced = 1\<rparr>,
      set_table ''payment_methods'' tb
        (w\<lparr>api_calls := api_calls w @ [Listing (payment_methods_of c)],
           upsert_calls := upsert_calls w @ [(''payment_methods'', 1)]\<rparr>))"
proof -
  let ?w1 = "w\<lparr>api_calls := api_calls w @ [Listing (payment_methods_of c)]\<rparr>"
  have ok_key: "\<not> list_ex (\<lambda>e. primary_key e = None) [payment_method_of (JStr c)]"
    by (simp add: primary_key_def payment_method_of_def dict_get_def py_str_def)
  from upsert_many_effect [OF ok_key, of "''payment_methods''" payment_methods_schema None ?w1]
  obtain n tb where
    up: "upsert_many_with_timestamp_protection [payment_method_of (JStr c)] ''payment_methods''
           payment_methods_schema None ?w1 =
         (Inr n, set_table ''payment_methods'' tb
                   (?w1\<lparr>upsert_calls := upsert_calls ?w1 @ [(''payment_methods'', 1)]\<rparr>))"
    by auto
  have listed: "auto_paging_iter (stripe (demo_engine plain_config wallet_api))
                  (payment_methods_of c) = ([payment_method_of (JStr c)], None)"
    by (simp add: demo_engine_def wallet_api_def catalog_api_def payment_methods_of_def
          dict_get_def)
  have no_backfill: "\<not> backfill_enabled (demo_engine plain_config wallet_api) (backfill_param None)"
    by (simp add: backfill_enabled_def backfill_param_def demo_engine_def plain_config_def)
  have "sync_payment_methods_of (demo_engine plain_config wallet_api) None (JStr c) w =
          batch_run (\<lambda>items. upsert_payment_methods (demo_engine plain_config wallet_api) items
                                (backfill_param None) None)
            [payment_method_of (JStr c)] ?w1"
    using fetch_and_upsert_listing [OF listed]
    by (simp add: sync_payment_methods_of_def batch_run_def payment_methods_of_def)
  also have "\<dots> = (Inr \<lparr>synced = 1\<rparr>,
                     set_table ''payment_methods'' tb
                       (?w1\<lparr>upsert_calls := upsert_calls ?w1 @ [(''payment_methods'', 1)]\<rparr>))"
    using up no_backfill
    by (simp add: batch_run_def chunks_short chunk_size_def upsert_payment_methods_def
          bnd_def ok_def)
  finally show ?thesis by auto
qed

lemma set_table_calls [simp]:
  "api_calls (set_table t tb w) = api_calls w"
  "upsert_calls (set_table t tb w) = upsert_calls w"
  by (simp_all add: set_table_def)

theorem payment_methods_batched_per_customer:
  "fst (sync_payment_methods (demo_engine plain_config wallet_api) None customers_world) =
     Inr \<lparr>synced = 3\<rparr> \<and>
   upsert_calls (snd (sync_payment_methods (demo_engine plain_config wallet_api) None
                        customers_world)) =
     [(''payment_methods'', 1), (''payment_methods'', 1), (''payment_methods'', 1)] \<and>
   api_calls (snd (sync_payment_methods (demo_engine plain_config wallet_api) None
                     customers_world)) =
     [Listing (payment_methods_of ''cus_1''), Listing (payment_methods_of ''cus_2''),
      Listing (payment_methods_of ''cus_3'')] \<and>
   (3 + 249) div 250 = (1::nat)"
proof -
  let ?E = "demo_engine plain_config wallet_api"
  have ids: "select_customers (table_of customers_world ''customers'') =
               [''cus_1'', ''cus_2'', ''cus_3'']"
    by (simp add: select_customers_def table_of_def customers_world_def customer_row_def
          soft_deleted_def dict_get_def)
  obtain tb1 where r1: "sync_payment_methods_of ?E None (JStr ''cus_1'') customers_world =
     (Inr \<lparr>synced = 1\<rparr>,
      set_table ''payment_methods'' tb1
        (customers_world\<lparr>api_calls := api_calls customers_world @ [Listing (payment_methods_of ''cus_1'')],
           upsert_calls := upsert_calls customers_world @ [(''payment_methods'', 1)]\<rparr>))"
    (is "_ = (_, ?w1)")
    using wallet_run [of "''cus_1''" customers_world] by blast
  obtain tb2 where r2: "sync_payment_methods_of ?E None (JStr ''cus_2'') ?w1 =
     (Inr \<lparr>synced = 1\<rparr>,
      set_table ''payment_methods'' tb2
        (?w1\<lparr>api_calls := api_calls ?w1 @ [Listing (payment_methods_of ''cus_2'')],
           upsert_calls := upsert_calls ?w1 @ [(''payment_methods'', 1)]\<rparr>))"
    (is "_ = (_, ?w2)")
    using wallet_run [of "''cus_2''" ?w1] by blast
  obtain tb3 where r3: "sync_payment_methods_of ?E None (JStr ''cus_3'') ?w2 =
     (Inr \<lparr>synced = 1\<rparr>,
      set_table ''payment_methods'' tb3
        (?w2\<lparr>api_calls := api_calls ?w2 @ [Listing (payment_methods_of ''cus_3'')],
           upsert_calls := upsert_calls ?w2 @ [(''payment_methods'', 1)]\<rparr>))"
    (is "_ = (_, ?w3)")
    using wallet_run [of "''cus_3''" ?w2] by blast
  have "sync_payment_methods ?E None customers_world = (Inr \<lparr>synced = 3\<rparr>, ?w3)"
    using r1 r2 r3
    by (simp add: sync_payment_methods_runs ids bnd_def ok_def)
  then show ?thesis
    by (simp add: customers_world_def)
qed

end
